theory Spec2Isabelle
  imports Complex_Main "HOL-Library.Product_Lexorder" "HOL-Library.Char_ord"
    "HOL-Library.List_Lexorder" "HOL-Library.Log_Nat"
begin

section \<open>Canteen ordering system: a model of app.py\<close>

text \<open>
  The theory follows \<^verbatim>\<open>canteen-project/app.py\<close>. Each request handler of the
  application becomes a function from the request (session, method, form fields, URL
  argument), the environment it reads (clock, random source) and the database to a
  response and the database after the request. A handler that returns without a commit
  returns the database it was given.

  Conventions of the model:
  \<^item> a Python float is an IEEE double: a rational that a double can hold, an infinity
    or NaN. Parsing, dividing and rounding give the nearest double, as Python does;
    sums of prices are exact (the rounding of each addition is left out), and a zero
    carries no sign;
  \<^item> strings are byte strings; Python's notion of whitespace and of a digit is
    restricted to ASCII;
  \<^item> the store is the default SQLite file: it assigns \<^verbatim>\<open>max(id) + 1\<close> to a new row,
    and enforces neither the declared column widths nor the foreign key of
    \<^verbatim>\<open>Feedback.item_id\<close>; failures of the store itself (a lost connection, an
    identifier beyond 64 bits) are outside the model, except where a handler catches
    them.
\<close>

subsection \<open>Python values\<close>

datatype pyerr = ValueError | ZeroDivisionError | OverflowError | IntegrityError

text \<open>Truthiness of an optional string: \<^verbatim>\<open>None\<close> and \<^verbatim>\<open>''\<close> are false.\<close>

definition truthy :: "string option \<Rightarrow> bool" where
  "truthy v = (case v of None \<Rightarrow> False | Some s \<Rightarrow> s \<noteq> [])"

definition digit_of :: "char \<Rightarrow> nat option" where
  "digit_of c =
     (let n = (of_char c :: nat) in if 48 \<le> n \<and> n \<le> 57 then Some (n - 48) else None)"

text \<open>
  \<^verbatim>\<open>datetime.time\<close>: naive times compare as the tuples
  \<^verbatim>\<open>(hour, minute, second, microsecond)\<close>, lexicographically.
\<close>

record pytime =
  hour :: nat
  minute :: nat
  second :: nat
  microsecond :: nat

definition time_key :: "pytime \<Rightarrow> nat \<times> nat \<times> nat \<times> nat" where
  "time_key t = (hour t, minute t, second t, microsecond t)"

definition time_le :: "pytime \<Rightarrow> pytime \<Rightarrow> bool" where
  "time_le a b = (time_key a \<le> time_key b)"

text \<open>
  \<^verbatim>\<open>datetime.strptime(s, "%H:%M").time()\<close>. The format compiles to the regular
  expression \<^verbatim>\<open>(2[0-3]|[0-1]\d|\d):([0-5]\d|\d)\<close>, which must match the whole
  string; anything else raises \<^verbatim>\<open>ValueError\<close>.
\<close>

definition parse_hour :: "string \<Rightarrow> nat option" where
  "parse_hour s =
     (case s of
        [a] \<Rightarrow> digit_of a
      | [a, b] \<Rightarrow>
          (case (digit_of a, digit_of b) of
             (Some x, Some y) \<Rightarrow> if 10 * x + y \<le> 23 then Some (10 * x + y) else None
           | _ \<Rightarrow> None)
      | _ \<Rightarrow> None)"

definition parse_minute :: "string \<Rightarrow> nat option" where
  "parse_minute s =
     (case s of
        [a] \<Rightarrow> digit_of a
      | [a, b] \<Rightarrow>
          (case (digit_of a, digit_of b) of
             (Some x, Some y) \<Rightarrow> if x \<le> 5 then Some (10 * x + y) else None
           | _ \<Rightarrow> None)
      | _ \<Rightarrow> None)"

definition strptime_HM :: "string \<Rightarrow> pytime option" where
  "strptime_HM s =
     (let h = takeWhile (\<lambda>c. c \<noteq> CHR '':'') s;
          r = dropWhile (\<lambda>c. c \<noteq> CHR '':'') s
      in case r of
           [] \<Rightarrow> None
         | _ # m \<Rightarrow>
             (case (parse_hour h, parse_minute m) of
                (Some H, Some M) \<Rightarrow>
                  Some \<lparr>hour = H, minute = M, second = 0, microsecond = 0\<rparr>
              | _ \<Rightarrow> None))"

text \<open>
  The text \<^verbatim>\<open>HH:MM\<close> of a time of day, two digits each: the form of the bounds in
  the seeded menu.
\<close>

definition digit_char :: "nat \<Rightarrow> char" where
  "digit_char d = ''0123456789'' ! d"

definition hhmm :: "nat \<Rightarrow> nat \<Rightarrow> string" where
  "hhmm h m =
     [digit_char (h div 10), digit_char (h mod 10), CHR '':'',
      digit_char (m div 10), digit_char (m mod 10)]"

text \<open>\<^verbatim>\<open>str.strip()\<close>, for the ASCII characters Python counts as whitespace.\<close>

definition is_space :: "char \<Rightarrow> bool" where
  "is_space c = (let n = (of_char c :: nat) in (9 \<le> n \<and> n \<le> 13) \<or> (28 \<le> n \<and> n \<le> 32))"

definition py_strip :: "string \<Rightarrow> string" where
  "py_strip s = rev (dropWhile is_space (rev (dropWhile is_space s)))"

text \<open>
  The digit groups of Python's numeric literals:
  \<^verbatim>\<open>digitpart ::= digit (["_"] digit)*\<close>. The result is the list of digits.
\<close>

fun digits_tail :: "string \<Rightarrow> nat list option" where
  "digits_tail [] = Some []"
| "digits_tail [c] = map_option (\<lambda>d. [d]) (digit_of c)"
| "digits_tail (c # d # ds) =
     (if c = CHR ''_'' then
        (case digit_of d of
           None \<Rightarrow> None
         | Some v \<Rightarrow> map_option (Cons v) (digits_tail ds))
      else
        (case digit_of c of
           None \<Rightarrow> None
         | Some v \<Rightarrow> map_option (Cons v) (digits_tail (d # ds))))"

definition digitpart :: "string \<Rightarrow> nat list option" where
  "digitpart s =
     (case s of
        [] \<Rightarrow> None
      | c # cs \<Rightarrow>
          (case digit_of c of
             None \<Rightarrow> None
           | Some v \<Rightarrow> map_option (Cons v) (digits_tail cs)))"

definition digits_val :: "nat list \<Rightarrow> nat" where
  "digits_val ds = foldl (\<lambda>a d. 10 * a + d) 0 ds"

definition signed_digitpart :: "string \<Rightarrow> int option" where
  "signed_digitpart s =
     (case s of
        [] \<Rightarrow> None
      | c # cs \<Rightarrow>
          if c = CHR ''-'' then map_option (\<lambda>ds. - int (digits_val ds)) (digitpart cs)
          else if c = CHR ''+'' then map_option (\<lambda>ds. int (digits_val ds)) (digitpart cs)
          else map_option (\<lambda>ds. int (digits_val ds)) (digitpart s))"









subsection \<open>Floats\<close>

text \<open>Rounding to the nearest integer, a tie going to the even neighbour.\<close>

definition round_half_even :: "rat \<Rightarrow> int" where
  "round_half_even x =
     (let f = \<lfloor>x\<rfloor>; d = x - of_int f
      in if d < 1 / 2 then f else if 1 / 2 < d then f + 1 else if even f then f else f + 1)"

text \<open>
  A Python float. The finite ones carry their exact value; \<open>double_round\<close> takes a
  rational to the nearest double (53 significant bits, exponents from -1022, a tie going
  to the even significand), and \<open>double_of_rat\<close> to infinity beyond the largest.
\<close>

datatype pyfloat = Finite rat | PosInf | NegInf | NaN

definition float_exp :: "rat \<Rightarrow> int" where
  "float_exp q = max (bitlen \<lfloor>\<bar>q\<bar> * 2 ^ 1074\<rfloor> - 1075) (- 1022)"

definition double_round :: "rat \<Rightarrow> rat" where
  "double_round q =
     (let u = 2 powi (float_exp q - 52) in of_int (round_half_even (q / u)) * u)"

definition double_of_rat :: "rat \<Rightarrow> pyfloat" where
  "double_of_rat q =
     (let r = double_round q
      in if 2 ^ 1024 \<le> r then PosInf else if r \<le> - (2 ^ 1024) then NegInf else Finite r)"

text \<open>Addition of floats; the sum of two finite ones is kept exact.\<close>

instantiation pyfloat :: comm_monoid_add
begin

definition zero_pyfloat :: pyfloat where
  "zero_pyfloat = Finite 0"

fun plus_pyfloat :: "pyfloat \<Rightarrow> pyfloat \<Rightarrow> pyfloat" where
  "plus_pyfloat NaN y = NaN"
| "plus_pyfloat x NaN = NaN"
| "plus_pyfloat PosInf NegInf = NaN"
| "plus_pyfloat NegInf PosInf = NaN"
| "plus_pyfloat PosInf y = PosInf"
| "plus_pyfloat x PosInf = PosInf"
| "plus_pyfloat NegInf y = NegInf"
| "plus_pyfloat x NegInf = NegInf"
| "plus_pyfloat (Finite a) (Finite b) = Finite (a + b)"

instance
proof
  fix x y z :: pyfloat
  show "0 + x = x"
    by (cases x) (simp_all add: zero_pyfloat_def)
  show "x + y = y + x"
    by (cases x; cases y; simp)
  show "x + y + z = x + (y + z)"
    by (cases x; cases y; cases z; simp)
qed

end

text \<open>
  \<^verbatim>\<open>float(s)\<close> for a string; \<open>None\<close> is \<^verbatim>\<open>ValueError\<close>. After an optional sign
  come \<^verbatim>\<open>inf\<close>, \<^verbatim>\<open>infinity\<close> or \<^verbatim>\<open>nan\<close> in any case of the letters, or a number
  \<^verbatim>\<open>([digitpart] "." digitpart | digitpart ["."]) [("e"|"E") [sign] digitpart]\<close>,
  which is rounded to the nearest double.
\<close>

definition split_at :: "(char \<Rightarrow> bool) \<Rightarrow> string \<Rightarrow> string \<times> string option" where
  "split_at p s =
     (takeWhile (\<lambda>c. \<not> p c) s,
      case dropWhile (\<lambda>c. \<not> p c) s of [] \<Rightarrow> None | _ # r \<Rightarrow> Some r)"

definition mantissa :: "string \<Rightarrow> (nat list \<times> nat list) option" where
  "mantissa s =
     (case split_at (\<lambda>c. c = CHR ''.'') s of
        (ip, None) \<Rightarrow> map_option (\<lambda>ds. (ds, [])) (digitpart ip)
      | (ip, Some f) \<Rightarrow>
          if ip = [] then map_option (\<lambda>fs. ([], fs)) (digitpart f)
          else
            (case digitpart ip of
               None \<Rightarrow> None
             | Some ds \<Rightarrow>
                 if f = [] then Some (ds, [])
                 else map_option (\<lambda>fs. (ds, fs)) (digitpart f)))"

definition unsigned_float :: "string \<Rightarrow> rat option" where
  "unsigned_float s =
     (case split_at (\<lambda>c. c = CHR ''e'' \<or> c = CHR ''E'') s of
        (m, ex) \<Rightarrow>
          (case (mantissa m, case ex of None \<Rightarrow> Some 0 | Some e \<Rightarrow> signed_digitpart e) of
             (Some (ds, fs), Some k) \<Rightarrow>
               Some (of_nat (digits_val (ds @ fs)) / 10 ^ length fs * (10 powi k))
           | _ \<Rightarrow> None))"

text \<open>\<open>ci_match s w\<close>: \<open>s\<close> is the lower-case word \<open>w\<close>, in any case of the letters.\<close>

definition ci_match :: "string \<Rightarrow> string \<Rightarrow> bool" where
  "ci_match s w = list_all2 (\<lambda>c l. c = l \<or> (of_char c :: nat) + 32 = of_char l) s w"

definition py_float :: "string \<Rightarrow> pyfloat option" where
  "py_float s =
     (case py_strip s of
        [] \<Rightarrow> None
      | c # cs \<Rightarrow>
          (let neg = (c = CHR ''-'');
               body = (if c = CHR ''-'' \<or> c = CHR ''+'' then cs else c # cs)
           in if ci_match body ''inf'' \<or> ci_match body ''infinity'' then
                Some (if neg then NegInf else PosInf)
              else if ci_match body ''nan'' then Some NaN
              else map_option (\<lambda>v. double_of_rat (if neg then - v else v))
                     (unsigned_float body)))"

text \<open>
  \<^verbatim>\<open>a / b\<close> on integers: the double nearest to the quotient, or
  \<^verbatim>\<open>OverflowError\<close> when that is too large for one.
\<close>

definition true_div :: "int \<Rightarrow> int \<Rightarrow> pyerr + rat" where
  "true_div a b =
     (if b = 0 then Inl ZeroDivisionError
      else
        (case double_of_rat (of_int a / of_int b) of
           Finite x \<Rightarrow> Inr x
         | _ \<Rightarrow> Inl OverflowError))"

text \<open>
  \<^verbatim>\<open>round(x, n)\<close> on a finite float: the exact value of \<open>x\<close> is rounded to the
  nearest multiple of \<open>10\<^sup>-\<^sup>n\<close>, a tie going to the even neighbour, and the result is the
  double nearest to that decimal.
\<close>

definition py_round :: "rat \<Rightarrow> nat \<Rightarrow> rat" where
  "py_round x n = double_round (of_int (round_half_even (x * 10 ^ n)) / 10 ^ n)"

subsection \<open>Tables\<close>

text \<open>
  The models \<^verbatim>\<open>MenuItem\<close>, \<^verbatim>\<open>Order\<close> and \<^verbatim>\<open>Feedback\<close>; a table is the list of
  its rows in insertion order. \<^verbatim>\<open>User\<close> is read by registration and login only, which
  leave their result in the session, so the table is not part of the model.
  \<open>created_at\<close> counts microseconds.
\<close>

record menu_item =
  mi_id :: nat
  mi_name :: string
  price :: pyfloat
  available :: bool
  available_from :: "string option"
  available_to :: "string option"

record order =
  order_id :: nat
  username :: string
  item_name :: string
  total_price :: pyfloat
  pickup_time :: string
  status :: string
  created_at :: int
  payment_status :: string
  token :: "string option"

record feedback =
  fb_id :: nat
  item_id :: nat
  fb_username :: string
  rating :: int
  comment :: "string option"
  fb_created_at :: int

record database =
  menu_items :: "menu_item list"
  orders :: "order list"
  feedbacks :: "feedback list"

text \<open>The primary key SQLite gives a new row: one more than the largest in the table.\<close>

definition next_id :: "nat list \<Rightarrow> nat" where
  "next_id ids = fold max ids 0 + 1"

text \<open>\<^verbatim>\<open>Model.query.get(id)\<close>: the row with that primary key, if any.\<close>

definition get_item :: "database \<Rightarrow> nat \<Rightarrow> menu_item option" where
  "get_item db i = find (\<lambda>it. mi_id it = i) (menu_items db)"

definition get_order :: "database \<Rightarrow> nat \<Rightarrow> order option" where
  "get_order db i = find (\<lambda>r. order_id r = i) (orders db)"

text \<open>Assigning to a column of the row with primary key \<open>i\<close>, then committing.\<close>

definition update_order :: "nat \<Rightarrow> (order \<Rightarrow> order) \<Rightarrow> database \<Rightarrow> database" where
  "update_order i f db = db\<lparr>orders := map (\<lambda>r. if order_id r = i then f r else r) (orders db)\<rparr>"

subsection \<open>Requests and responses\<close>

type_synonym session = "string \<rightharpoonup> string"
type_synonym form = "string \<rightharpoonup> string"

datatype http_method = GET | POST

definition form_get :: "form \<Rightarrow> string \<Rightarrow> string \<Rightarrow> string" where
  "form_get frm k d = (case frm k of None \<Rightarrow> d | Some v \<Rightarrow> v)"

datatype endpoint =
    EP_login
  | EP_menu
  | EP_student_dashboard
  | EP_admin_menu
  | EP_admin_orders
  | EP_order_form nat
  | EP_payment nat
  | EP_order_receipt nat

text \<open>
  What a handler returns: a redirect, with the message and category it flashed before if
  any; a rendered template with its data; \<^verbatim>\<open>abort(404)\<close>; a JSON body with its
  status; or the 500 of an exception nobody caught.
\<close>

datatype response =
    Redirect endpoint
  | Flash_redirect string string endpoint
  | Abort nat
  | Server_error pyerr
  | Json_error string nat
  | Json_ok
  | Render_menu "(menu_item \<times> bool \<times> rat option) list"
  | Render_order menu_item
  | Render_payment pyfloat order
  | Render_order_history "order list" pyfloat
  | Render_admin_menu "menu_item list"

subsection \<open>Helpers\<close>

definition is_logged_in :: "session \<Rightarrow> bool" where
  "is_logged_in sess = (sess ''username'' \<noteq> None)"

definition is_admin :: "session \<Rightarrow> bool" where
  "is_admin sess = (sess ''role'' = Some ''admin'')"

text \<open>
  \<^verbatim>\<open>session['username']\<close>. Every handler reads it behind \<open>is_logged_in\<close>, where the
  key is present.
\<close>

definition session_username :: "session \<Rightarrow> string" where
  "session_username sess = (case sess ''username'' of Some u \<Rightarrow> u | None \<Rightarrow> [])"

text \<open>
  \<^verbatim>\<open>in_availability(item)\<close>, with the reading of \<^verbatim>\<open>datetime.now().time()\<close> as
  the argument \<open>cur\<close>. A bound that does not parse raises.
\<close>

definition in_availability :: "menu_item \<Rightarrow> pytime \<Rightarrow> pyerr + bool" where
  "in_availability item cur =
     (if \<not> available item then Inr False
      else if truthy (available_from item) \<and> truthy (available_to item) then
        (case strptime_HM (case available_from item of Some f \<Rightarrow> f | None \<Rightarrow> []) of
           None \<Rightarrow> Inl ValueError
         | Some fr \<Rightarrow>
             (case strptime_HM (case available_to item of Some t \<Rightarrow> t | None \<Rightarrow> []) of
                None \<Rightarrow> Inl ValueError
              | Some to \<Rightarrow> if time_le fr cur \<and> time_le cur to then Inr True else Inr False))
      else Inr True)"

text \<open>
  \<^verbatim>\<open>gen_token(n)\<close>: \<open>n\<close> draws, with replacement, from the 36 characters of
  \<^verbatim>\<open>string.ascii_uppercase + string.digits\<close>. The random source is the argument
  \<open>rnd\<close>: its \<open>i\<close>-th value selects the \<open>i\<close>-th character.
\<close>

definition alphabet :: string where
  "alphabet = ''ABCDEFGHIJKLMNOPQRSTUVWXYZ0123456789''"

definition gen_token :: "(nat \<Rightarrow> nat) \<Rightarrow> nat \<Rightarrow> string" where
  "gen_token rnd n = map (\<lambda>i. alphabet ! (rnd i mod length alphabet)) [0..<n]"

subsection \<open>Student routes\<close>

text \<open>
  The rows of the menu page. \<^verbatim>\<open>avg_rating\<close> is the head of the loop body of
  \<^verbatim>\<open>menu()\<close>: \<^verbatim>\<open>avg = None\<close>, and
  \<^verbatim>\<open>round(sum(r.rating for r in ratings) / len(ratings), 2)\<close> when the item has
  feedback. The average is a finite float, given by its value.
\<close>

definition avg_rating :: "database \<Rightarrow> nat \<Rightarrow> pyerr + rat option" where
  "avg_rating db i =
     (let ratings = filter (\<lambda>r. item_id r = i) (feedbacks db)
      in if ratings \<noteq> [] then
           (case true_div (sum_list (map rating ratings)) (int (length ratings)) of
              Inl e \<Rightarrow> Inl e
            | Inr x \<Rightarrow> Inr (Some (py_round x 2)))
         else Inr None)"

fun menu_rows ::
  "database \<Rightarrow> pytime \<Rightarrow> menu_item list \<Rightarrow> pyerr + (menu_item \<times> bool \<times> rat option) list"
where
  "menu_rows db cur [] = Inr []"
| "menu_rows db cur (it # its) =
     (case avg_rating db (mi_id it) of
        Inl e \<Rightarrow> Inl e
      | Inr avg \<Rightarrow>
          (case in_availability it cur of
             Inl e \<Rightarrow> Inl e
           | Inr a \<Rightarrow>
               (case menu_rows db cur its of
                  Inl e \<Rightarrow> Inl e
                | Inr rows \<Rightarrow> Inr ((it, a, avg) # rows))))"

definition menu :: "session \<Rightarrow> pytime \<Rightarrow> database \<Rightarrow> response" where
  "menu sess cur db =
     (if \<not> is_logged_in sess \<or> is_admin sess then Redirect EP_login
      else
        (case menu_rows db cur (sort_key mi_name (menu_items db)) of
           Inl e \<Rightarrow> Server_error e
         | Inr rows \<Rightarrow> Render_menu rows))"

text \<open>
  \<^verbatim>\<open>order_form(item_id)\<close>. Beside the request it reads the local time of day \<open>cur\<close>
  (in \<open>in_availability\<close>), the UTC clock \<open>utcnow\<close> (the default of
  \<^verbatim>\<open>created_at\<close>) and the random source \<open>rnd\<close> (in \<open>gen_token\<close>).
\<close>

definition order_form ::
  "session \<Rightarrow> http_method \<Rightarrow> form \<Rightarrow> pytime \<Rightarrow> int \<Rightarrow> (nat \<Rightarrow> nat) \<Rightarrow> nat \<Rightarrow> database
     \<Rightarrow> response \<times> database"
where
  "order_form sess meth frm cur utcnow rnd iid db =
     (if \<not> is_logged_in sess \<or> is_admin sess then (Redirect EP_login, db)
      else
        (case get_item db iid of
           None \<Rightarrow> (Abort 404, db)
         | Some item \<Rightarrow>
             if meth = POST then
               (case in_availability item cur of
                  Inl e \<Rightarrow> (Server_error e, db)
                | Inr ok \<Rightarrow>
                    if \<not> ok then
                      (Flash_redirect ''This item is not available at the selected time.''
                         ''danger'' EP_menu, db)
                    else
                      (let time_val = py_strip (form_get frm ''order_time'' []);
                           ampm = py_strip (form_get frm ''order_ampm'' [])
                       in if time_val = [] \<or> ampm \<notin> set [''AM'', ''PM''] then
                            (Flash_redirect ''Please enter valid time and AM/PM'' ''danger''
                               (EP_order_form iid), db)
                          else
                            (let new_order =
                                   \<lparr>order_id = next_id (map order_id (orders db)),
                                    username = session_username sess,
                                    item_name = mi_name item,
                                    total_price = price item,
                                    pickup_time = time_val @ '' '' @ ampm,
                                    status = ''Pending'',
                                    created_at = utcnow,
                                    payment_status = ''Unpaid'',
                                    token = Some (gen_token rnd 6)\<rparr>
                             in (Redirect (EP_payment (order_id new_order)),
                                 db\<lparr>orders := orders db @ [new_order]\<rparr>))))
             else (Render_order item, db)))"

text \<open>\<^verbatim>\<open>payment(order_id)\<close>. The chosen method reaches the flashed message only.\<close>

definition payment ::
  "session \<Rightarrow> http_method \<Rightarrow> form \<Rightarrow> nat \<Rightarrow> database \<Rightarrow> response \<times> database"
where
  "payment sess meth frm oid db =
     (if \<not> is_logged_in sess \<or> is_admin sess then (Redirect EP_login, db)
      else
        (case get_order db oid of
           None \<Rightarrow> (Abort 404, db)
         | Some ord \<Rightarrow>
             if username ord \<noteq> session_username sess \<and> \<not> is_admin sess then
               (Flash_redirect ''Not authorized'' ''danger'' EP_student_dashboard, db)
             else if meth = POST then
               (Flash_redirect
                  (''Payment successful via '' @ form_get frm ''method'' ''None'' @ '' (dummy).'')
                  ''success'' (EP_order_receipt (order_id ord)),
                update_order (order_id ord) (\<lambda>r. r\<lparr>payment_status := ''Paid''\<rparr>) db)
             else (Render_payment (total_price ord) ord, db)))"

text \<open>
  \<^verbatim>\<open>order_history()\<close>. The query sorts the user's orders by \<^verbatim>\<open>created_at\<close>,
  latest first; SQL leaves the order of rows with equal time stamps open, and the model
  puts the row inserted later first.
\<close>

definition user_orders :: "database \<Rightarrow> string \<Rightarrow> order list" where
  "user_orders db u = rev (sort_key created_at (filter (\<lambda>r. username r = u) (orders db)))"

definition total_spent :: "order list \<Rightarrow> pyfloat" where
  "total_spent os = sum_list (map total_price (filter (\<lambda>r. payment_status r = ''Paid'') os))"

definition order_history :: "session \<Rightarrow> database \<Rightarrow> response" where
  "order_history sess db =
     (if \<not> is_logged_in sess \<or> is_admin sess then Redirect EP_login
      else
        (let os = user_orders db (session_username sess)
         in Render_order_history os (total_spent os)))"

text \<open>\<^verbatim>\<open>cancel_order(order_id)\<close>; the route takes POST only.\<close>

definition cancel_order :: "session \<Rightarrow> nat \<Rightarrow> database \<Rightarrow> response \<times> database" where
  "cancel_order sess oid db =
     (if \<not> is_logged_in sess \<or> is_admin sess then (Redirect EP_login, db)
      else
        (case get_order db oid of
           None \<Rightarrow> (Abort 404, db)
         | Some ord \<Rightarrow>
             if username ord \<noteq> session_username sess then
               (Json_error ''Not authorized'' 403, db)
             else if status ord \<noteq> ''Pending'' then
               (Json_error ''Only pending orders can be cancelled'' 400, db)
             else
               (Json_ok, update_order (order_id ord) (\<lambda>r. r\<lparr>status := ''Cancelled''\<rparr>) db)))"


subsection \<open>Admin routes\<close>

text \<open>
  \<^verbatim>\<open>admin_menu()\<close>. SQLite stores a NaN as \<^verbatim>\<open>NULL\<close>, which the column
  \<^verbatim>\<open>price\<close> (\<^verbatim>\<open>nullable=False\<close>) refuses: the commit raises
  \<^verbatim>\<open>IntegrityError\<close>, nobody catches it, and nothing is stored.
\<close>

definition or_none :: "string \<Rightarrow> string option" where
  "or_none s = (if s = [] then None else Some s)"

definition admin_menu ::
  "session \<Rightarrow> http_method \<Rightarrow> form \<Rightarrow> database \<Rightarrow> response \<times> database"
where
  "admin_menu sess meth frm db =
     (if \<not> is_logged_in sess \<or> \<not> is_admin sess then (Redirect EP_login, db)
      else if meth = POST then
        (let name = py_strip (form_get frm ''name'' []);
             price_s = py_strip (form_get frm ''price'' []);
             av_from = or_none (py_strip (form_get frm ''available_from'' []));
             av_to = or_none (py_strip (form_get frm ''available_to'' []))
         in if name = [] \<or> price_s = [] then
              (Flash_redirect ''Provide name and price'' ''danger'' EP_admin_menu, db)
            else
              (case py_float price_s of
                 None \<Rightarrow> (Flash_redirect ''Price must be a number'' ''danger'' EP_admin_menu, db)
               | Some price_val \<Rightarrow>
                   if price_val = NaN then (Server_error IntegrityError, db)
                   else
                     (let item =
                            \<lparr>mi_id = next_id (map mi_id (menu_items db)),
                             mi_name = name,
                             price = price_val,
                             available = True,
                             available_from = av_from,
                             available_to = av_to\<rparr>
                      in (Flash_redirect ''Item added'' ''success'' EP_admin_menu,
                          db\<lparr>menu_items := menu_items db @ [item]\<rparr>))))
      else (Render_admin_menu (sort_key mi_name (menu_items db)), db))"


subsection \<open>Initial data\<close>

text \<open>The menu \<^verbatim>\<open>init_db()\<close> seeds into an empty database.\<close>

definition sample :: "(string \<times> pyfloat \<times> bool \<times> string \<times> string) list" where
  "sample =
     [(''Chicken Biryani'', Finite 120, True, ''11:00'', ''15:00''),
      (''Veg Biryani'', Finite 100, True, ''11:00'', ''15:00''),
      (''Samosa'', Finite 15, True, ''09:00'', ''17:00''),
      (''Egg Manchuria'', Finite 80, True, ''11:00'', ''15:00''),
      (''Chicken Manchuria'', Finite 100, True, ''11:00'', ''15:00''),
      (''Idli'', Finite 30, True, ''07:00'', ''10:30''),
      (''Dosa'', Finite 40, True, ''07:00'', ''11:00''),
      (''Poori'', Finite 35, True, ''07:00'', ''11:00'')]"

definition init_db :: database where
  "init_db =
     \<lparr>menu_items =
        map (\<lambda>(i, n, p, av, f, t).
               \<lparr>mi_id = Suc i, mi_name = n, price = p, available = av,
                available_from = Some f, available_to = Some t\<rparr>)
          (enumerate 0 sample),
      orders = [],
      feedbacks = []\<rparr>"

subsection \<open>Sessions and sample rows\<close>

text \<open>The session \<^verbatim>\<open>login()\<close> leaves behind for a user of the given name and role.\<close>

definition login_session :: "string \<Rightarrow> string \<Rightarrow> session" where
  "login_session u r = [''username'' \<mapsto> u, ''role'' \<mapsto> r]"

text \<open>An order row and a feedback row to run the handlers on, and a database holding them.\<close>

definition ex_order :: "nat \<Rightarrow> string \<Rightarrow> rat \<Rightarrow> string \<Rightarrow> string \<Rightarrow> order" where
  "ex_order i u p st pay =
     \<lparr>order_id = i, username = u, item_name = ''Samosa'', total_price = Finite p,
      pickup_time = ''12:30 PM'', status = st, created_at = int i, payment_status = pay,
      token = Some ''A1B2C3''\<rparr>"

definition ex_feedback :: "nat \<Rightarrow> nat \<Rightarrow> int \<Rightarrow> feedback" where
  "ex_feedback i it r =
     \<lparr>fb_id = i, item_id = it, fb_username = ''alice'', rating = r, comment = Some [],
      fb_created_at = int i\<rparr>"

definition ex_db :: "order list \<Rightarrow> feedback list \<Rightarrow> database" where
  "ex_db os fs = init_db\<lparr>orders := os, feedbacks := fs\<rparr>"

section \<open>Availability\<close>

lemma time_le_trans: "time_le a b \<Longrightarrow> time_le b c \<Longrightarrow> time_le a c"
  unfolding time_le_def by (rule order_trans)

lemma time_le_refl: "time_le a a"
  unfolding time_le_def by simp

lemma strptime_HM_Nil: "strptime_HM [] = None"
  by (simp add: strptime_HM_def)

lemmas strptime_defs = strptime_HM_def parse_hour_def parse_minute_def digit_of_def

lemma digit_of_digit_char: "d < 10 \<Longrightarrow> digit_of (digit_char d) = Some d"
proof -
  assume "d < 10"
  then have "d \<in> {0, 1, 2, 3, 4, 5, 6, 7, 8, 9}"
    by auto
  then show ?thesis
    by (auto simp: digit_of_def digit_char_def)
qed

lemma digit_char_not_colon: "d < 10 \<Longrightarrow> digit_char d \<noteq> CHR '':''"
proof
  assume d: "d < 10" and "digit_char d = CHR '':''"
  then have "digit_of (digit_char d) = digit_of CHR '':''" by simp
  with d show False by (simp add: digit_of_digit_char) (simp add: digit_of_def)
qed

lemma strptime_HM_hhmm:
  assumes "h < 24" "m < 60"
  shows "strptime_HM (hhmm h m) = Some \<lparr>hour = h, minute = m, second = 0, microsecond = 0\<rparr>"
proof -
  have d: "h div 10 < 10" "h mod 10 < 10" "m div 10 < 10" "m mod 10 < 10" "m div 10 \<le> 5"
    using assms by auto
  have "10 * (h div 10) + h mod 10 = h" "10 * (m div 10) + m mod 10 = m"
    by auto
  with d assms show ?thesis
    by (simp add: strptime_HM_def hhmm_def parse_hour_def parse_minute_def
        digit_of_digit_char digit_char_not_colon)
qed

lemma in_availability_window:
  assumes "available item" "available_from item = Some f" "available_to item = Some t"
    and "strptime_HM f = Some fr" "strptime_HM t = Some to"
  shows "in_availability item cur = Inr (time_le fr cur \<and> time_le cur to)"
proof -
  from assms(4,5) have "f \<noteq> []" "t \<noteq> []"
    by (auto simp: strptime_HM_Nil)
  with assms show ?thesis
    by (simp add: in_availability_def truthy_def)
qed

text \<open>
  Claim C1. An item whose flag is off is unavailable at every instant. An item whose flag
  is on and that lacks a bound (unset or empty) is available at every instant. An item
  whose flag is on and whose two bounds parse to the times \<open>fr\<close> and \<open>to\<close> is available
  at \<open>cur\<close> exactly when \<open>fr \<le> cur \<le> to\<close>; if \<open>fr \<le> to\<close> it is available exactly at
  \<open>fr\<close> and exactly at \<open>to\<close>, and if \<open>fr > to\<close> (a window across midnight) it is
  available at no instant. Every bound written \<^verbatim>\<open>HH:MM\<close> parses, to the time it
  names.
\<close>

theorem in_availability_spec:
  "(\<not> available item \<longrightarrow> in_availability item cur = Inr False)
   \<and> (available item \<and> (\<not> truthy (available_from item) \<or> \<not> truthy (available_to item))
        \<longrightarrow> in_availability item cur = Inr True)
   \<and> (available item \<and> available_from item = Some f \<and> available_to item = Some t
        \<and> strptime_HM f = Some fr \<and> strptime_HM t = Some to
        \<longrightarrow> in_availability item cur = Inr (time_le fr cur \<and> time_le cur to)
          \<and> (time_le fr to \<longrightarrow> in_availability item fr = Inr True
                \<and> in_availability item to = Inr True)
          \<and> (\<not> time_le fr to \<longrightarrow> in_availability item cur = Inr False))
   \<and> (h < 24 \<and> m < 60 \<longrightarrow>
        strptime_HM (hhmm h m) = Some \<lparr>hour = h, minute = m, second = 0, microsecond = 0\<rparr>)"
proof (intro conjI impI)
  assume "h < 24 \<and> m < 60"
  then show "strptime_HM (hhmm h m) = Some \<lparr>hour = h, minute = m, second = 0, microsecond = 0\<rparr>"
    by (simp add: strptime_HM_hhmm)
next
  assume "\<not> available item"
  then show "in_availability item cur = Inr False"
    by (simp add: in_availability_def)
next
  assume "available item \<and> (\<not> truthy (available_from item) \<or> \<not> truthy (available_to item))"
  then show "in_availability item cur = Inr True"
    by (auto simp: in_availability_def)
next
  assume a: "available item \<and> available_from item = Some f \<and> available_to item = Some t
        \<and> strptime_HM f = Some fr \<and> strptime_HM t = Some to"
  then have w: "\<And>c. in_availability item c = Inr (time_le fr c \<and> time_le c to)"
    using in_availability_window by blast
  show "in_availability item cur = Inr (time_le fr cur \<and> time_le cur to)"
    by (rule w)
  { assume "time_le fr to"
    then show "in_availability item fr = Inr True" "in_availability item to = Inr True"
      by (simp_all add: w time_le_refl) }
  { assume "\<not> time_le fr to"
    then have "\<not> (time_le fr cur \<and> time_le cur to)"
      using time_le_trans by blast
    then show "in_availability item cur = Inr False"
      by (simp add: w) }
qed

text \<open>
  The seeded Samosa (09:00 to 17:00) at 10:00, at 09:00 sharp, at 17:00 sharp and half
  a minute after 17:00; the same item switched off; without its upper bound; and with
  the window 22:00 to 02:00 at 23:00.
\<close>

theorem in_availability_spec_witness:
  "hhmm 9 0 = ''09:00''
   \<and> strptime_HM ''09:00'' = Some \<lparr>hour = 9, minute = 0, second = 0, microsecond = 0\<rparr>
   \<and> strptime_HM ''17:00'' = Some \<lparr>hour = 17, minute = 0, second = 0, microsecond = 0\<rparr>
   \<and> in_availability
        \<lparr>mi_id = 3, mi_name = ''Samosa'', price = Finite 15, available = True,
         available_from = Some ''09:00'', available_to = Some ''17:00''\<rparr>
        \<lparr>hour = 10, minute = 0, second = 0, microsecond = 0\<rparr> = Inr True
   \<and> in_availability
        \<lparr>mi_id = 3, mi_name = ''Samosa'', price = Finite 15, available = True,
         available_from = Some ''09:00'', available_to = Some ''17:00''\<rparr>
        \<lparr>hour = 9, minute = 0, second = 0, microsecond = 0\<rparr> = Inr True
   \<and> in_availability
        \<lparr>mi_id = 3, mi_name = ''Samosa'', price = Finite 15, available = True,
         available_from = Some ''09:00'', available_to = Some ''17:00''\<rparr>
        \<lparr>hour = 17, minute = 0, second = 0, microsecond = 0\<rparr> = Inr True
   \<and> in_availability
        \<lparr>mi_id = 3, mi_name = ''Samosa'', price = Finite 15, available = True,
         available_from = Some ''09:00'', available_to = Some ''17:00''\<rparr>
        \<lparr>hour = 17, minute = 0, second = 30, microsecond = 0\<rparr> = Inr False
   \<and> in_availability
        \<lparr>mi_id = 3, mi_name = ''Samosa'', price = Finite 15, available = False,
         available_from = Some ''09:00'', available_to = Some ''17:00''\<rparr>
        \<lparr>hour = 10, minute = 0, second = 0, microsecond = 0\<rparr> = Inr False
   \<and> in_availability
        \<lparr>mi_id = 3, mi_name = ''Samosa'', price = Finite 15, available = True,
         available_from = Some ''09:00'', available_to = None\<rparr>
        \<lparr>hour = 23, minute = 0, second = 0, microsecond = 0\<rparr> = Inr True
   \<and> in_availability
        \<lparr>mi_id = 3, mi_name = ''Samosa'', price = Finite 15, available = True,
         available_from = Some ''22:00'', available_to = Some ''02:00''\<rparr>
        \<lparr>hour = 23, minute = 0, second = 0, microsecond = 0\<rparr> = Inr False"
proof -
  let ?t = "\<lambda>h s. \<lparr>hour = h, minute = 0, second = s, microsecond = 0\<rparr>"
  let ?it = "\<lambda>av f t. \<lparr>mi_id = 3, mi_name = ''Samosa'', price = Finite 15, available = av,
         available_from = f, available_to = t\<rparr>"
  note s = in_availability_spec
  have h: "hhmm 9 0 = ''09:00''" "hhmm 17 0 = ''17:00''"
    by (simp_all add: hhmm_def digit_char_def)
  have p: "strptime_HM ''09:00'' = Some (?t 9 0)" "strptime_HM ''17:00'' = Some (?t 17 0)"
    using s [of _ _ _ _ _ _ 9 0] s [of _ _ _ _ _ _ 17 0] h by simp_all
  have p': "strptime_HM ''22:00'' = Some (?t 22 0)" "strptime_HM ''02:00'' = Some (?t 2 0)"
    by (simp_all add: strptime_defs)
  have le: "time_le (?t 9 0) (?t 17 0)" "\<not> time_le (?t 22 0) (?t 2 0)"
    "time_le (?t 9 0) (?t 10 0)" "time_le (?t 10 0) (?t 17 0)"
    "time_le (?t 9 0) (?t 17 30)" "\<not> time_le (?t 17 30) (?t 17 0)"
    by (simp_all add: time_le_def time_key_def)
  from h p p' le show ?thesis
    using
      s [of "?it True (Some ''09:00'') (Some ''17:00'')" "?t 10 0" "''09:00''" "''17:00''"
           "?t 9 0" "?t 17 0"]
      s [of "?it True (Some ''09:00'') (Some ''17:00'')" "?t 17 30" "''09:00''" "''17:00''"
           "?t 9 0" "?t 17 0"]
      s [of "?it False (Some ''09:00'') (Some ''17:00'')" "?t 10 0"]
      s [of "?it True (Some ''09:00'') None" "?t 23 0"]
      s [of "?it True (Some ''22:00'') (Some ''02:00'')" "?t 23 0" "''22:00''" "''02:00''"
           "?t 22 0" "?t 2 0"]
    by (simp add: truthy_def time_le_def time_key_def)
qed

section \<open>Sessions\<close>

lemma login_session_simps [simp]:
  "is_logged_in (login_session u r)"
  "is_admin (login_session u r) = (r = ''admin'')"
  "session_username (login_session u r) = u"
  by (simp_all add: login_session_def is_logged_in_def is_admin_def session_username_def)

lemma ex_order_simps [simp]:
  "order_id (ex_order i u p st pay) = i"
  "username (ex_order i u p st pay) = u"
  "total_price (ex_order i u p st pay) = Finite p"
  "status (ex_order i u p st pay) = st"
  "payment_status (ex_order i u p st pay) = pay"
  "created_at (ex_order i u p st pay) = int i"
  "(ex_order i u p st pay)\<lparr>status := st'\<rparr> = ex_order i u p st' pay"
  "(ex_order i u p st pay)\<lparr>payment_status := pay'\<rparr> = ex_order i u p st pay'"
  by (simp_all add: ex_order_def)

lemma ex_db_simps [simp]:
  "orders (ex_db os fs) = os"
  "feedbacks (ex_db os fs) = fs"
  "menu_items (ex_db os fs) = menu_items init_db"
  by (simp_all add: ex_db_def)

lemma update_order_ex_db:
  "update_order i f (ex_db os fs) = ex_db (map (\<lambda>r. if order_id r = i then f r else r) os) fs"
  by (simp add: update_order_def ex_db_def)

section \<open>Primary keys and row updates\<close>

lemma fold_max_ge: "fold max ids (a::nat) \<ge> a"
  by (induction ids arbitrary: a) (auto intro: order_trans [OF max.cobounded2])

lemma fold_max_mem: "i \<in> set ids \<Longrightarrow> i \<le> fold max ids (a::nat)"
proof (induction ids arbitrary: a)
  case Nil
  then show ?case by simp
next
  case (Cons x xs)
  show ?case
  proof (cases "i = x")
    case True
    have "x \<le> max x a" by simp
    also have "\<dots> \<le> fold max xs (max x a)" by (rule fold_max_ge)
    finally show ?thesis using True by simp
  next
    case False
    with Cons show ?thesis by simp
  qed
qed

lemma next_id_fresh: "i \<in> set ids \<Longrightarrow> i < next_id ids"
  unfolding next_id_def using fold_max_mem [of i ids 0] by simp

lemma next_id_notin: "next_id ids \<notin> set ids"
  using next_id_fresh [of "next_id ids" ids] by auto

lemma get_order_Some:
  "get_order db i = Some ord \<Longrightarrow> ord \<in> set (orders db) \<and> order_id ord = i"
  unfolding get_order_def by (auto simp: find_Some_iff)

lemma find_map_upd:
  assumes "\<And>r. order_id (f r) = order_id r"
  shows "find (\<lambda>r. order_id r = j) (map (\<lambda>r. if order_id r = i then f r else r) xs) =
         (if j = i then map_option f (find (\<lambda>r. order_id r = j) xs)
          else find (\<lambda>r. order_id r = j) xs)"
  using assms by (induction xs) auto

lemma get_order_update:
  assumes "\<And>r. order_id (f r) = order_id r"
  shows "get_order (update_order i f db) j =
         (if j = i then map_option f (get_order db j) else get_order db j)"
  unfolding get_order_def update_order_def using find_map_upd [OF assms] by simp

lemma update_order_other [simp]:
  "menu_items (update_order i f db) = menu_items db"
  "feedbacks (update_order i f db) = feedbacks db"
  by (simp_all add: update_order_def)

section \<open>Cancelling\<close>

lemma cancel_order_gate:
  "\<not> is_logged_in sess \<or> is_admin sess \<Longrightarrow> cancel_order sess oid db = (Redirect EP_login, db)"
  by (simp add: cancel_order_def)

lemma cancel_order_found:
  assumes "is_logged_in sess" "\<not> is_admin sess" "get_order db oid = Some ord"
  shows "cancel_order sess oid db =
         (if username ord \<noteq> session_username sess then (Json_error ''Not authorized'' 403, db)
          else if status ord \<noteq> ''Pending'' then
            (Json_error ''Only pending orders can be cancelled'' 400, db)
          else (Json_ok, update_order oid (\<lambda>r. r\<lparr>status := ''Cancelled''\<rparr>) db))"
  using assms get_order_Some [OF assms(3)] by (simp add: cancel_order_def)

text \<open>
  Claim C3. For an order that exists: a session that is not a logged-in student is sent
  to the login page; a student who is not the owner gets 403; the owner gets 400 when the
  status is not \<^verbatim>\<open>Pending\<close>; each of these leaves the database as it was. The call
  succeeds exactly for the owner of a \<^verbatim>\<open>Pending\<close> order; the order is then
  \<^verbatim>\<open>Cancelled\<close>, and the same call made again gets 400 and changes nothing.
\<close>

theorem cancel_order_spec:
  assumes "get_order db oid = Some ord"
  shows "(\<not> is_logged_in sess \<or> is_admin sess \<longrightarrow>
            cancel_order sess oid db = (Redirect EP_login, db))
       \<and> (is_logged_in sess \<and> \<not> is_admin sess \<and> username ord \<noteq> session_username sess \<longrightarrow>
            cancel_order sess oid db = (Json_error ''Not authorized'' 403, db))
       \<and> (is_logged_in sess \<and> \<not> is_admin sess \<and> username ord = session_username sess
            \<and> status ord \<noteq> ''Pending'' \<longrightarrow>
            cancel_order sess oid db =
              (Json_error ''Only pending orders can be cancelled'' 400, db))
       \<and> (fst (cancel_order sess oid db) = Json_ok \<longleftrightarrow>
            is_logged_in sess \<and> \<not> is_admin sess \<and> username ord = session_username sess
            \<and> status ord = ''Pending'')
       \<and> (fst (cancel_order sess oid db) = Json_ok \<longrightarrow>
            get_order (snd (cancel_order sess oid db)) oid = Some (ord\<lparr>status := ''Cancelled''\<rparr>)
          \<and> cancel_order sess oid (snd (cancel_order sess oid db)) =
              (Json_error ''Only pending orders can be cancelled'' 400,
               snd (cancel_order sess oid db)))"
proof (cases "is_logged_in sess \<and> \<not> is_admin sess")
  case False
  then show ?thesis
    using cancel_order_gate [of sess oid db] by auto
next
  case True
  then have st: "is_logged_in sess" "\<not> is_admin sess" by simp_all
  note c = cancel_order_found [OF st assms]
  let ?db' = "update_order oid (\<lambda>r. r\<lparr>status := ''Cancelled''\<rparr>) db"
  have g: "get_order ?db' oid = Some (ord\<lparr>status := ''Cancelled''\<rparr>)"
    using assms by (simp add: get_order_update)
  have again: "username ord = session_username sess \<Longrightarrow>
      cancel_order sess oid ?db' =
        (Json_error ''Only pending orders can be cancelled'' 400, ?db')"
    using cancel_order_found [OF st g] by simp
  show ?thesis
    using g again st by (auto simp: c)
qed

text \<open>
  Alice's orders 1 (\<^verbatim>\<open>Pending\<close>) and 2 (\<^verbatim>\<open>Preparing\<close>): Bob and the admin are
  refused, order 2 cannot be cancelled, order 1 can, once.
\<close>

theorem cancel_order_spec_witness:
  "get_order (ex_db [ex_order 1 ''alice'' 15 ''Pending'' ''Unpaid'',
                     ex_order 2 ''alice'' 15 ''Preparing'' ''Unpaid''] []) 1
     = Some (ex_order 1 ''alice'' 15 ''Pending'' ''Unpaid'')
   \<and> cancel_order (login_session ''bob'' ''user'') 1
        (ex_db [ex_order 1 ''alice'' 15 ''Pending'' ''Unpaid'',
                ex_order 2 ''alice'' 15 ''Preparing'' ''Unpaid''] [])
     = (Json_error ''Not authorized'' 403,
        ex_db [ex_order 1 ''alice'' 15 ''Pending'' ''Unpaid'',
               ex_order 2 ''alice'' 15 ''Preparing'' ''Unpaid''] [])
   \<and> cancel_order (login_session ''canteen_admin'' ''admin'') 1
        (ex_db [ex_order 1 ''alice'' 15 ''Pending'' ''Unpaid'',
                ex_order 2 ''alice'' 15 ''Preparing'' ''Unpaid''] [])
     = (Redirect EP_login,
        ex_db [ex_order 1 ''alice'' 15 ''Pending'' ''Unpaid'',
               ex_order 2 ''alice'' 15 ''Preparing'' ''Unpaid''] [])
   \<and> cancel_order (login_session ''alice'' ''user'') 2
        (ex_db [ex_order 1 ''alice'' 15 ''Pending'' ''Unpaid'',
                ex_order 2 ''alice'' 15 ''Preparing'' ''Unpaid''] [])
     = (Json_error ''Only pending orders can be cancelled'' 400,
        ex_db [ex_order 1 ''alice'' 15 ''Pending'' ''Unpaid'',
               ex_order 2 ''alice'' 15 ''Preparing'' ''Unpaid''] [])
   \<and> cancel_order (login_session ''alice'' ''user'') 1
        (ex_db [ex_order 1 ''alice'' 15 ''Pending'' ''Unpaid'',
                ex_order 2 ''alice'' 15 ''Preparing'' ''Unpaid''] [])
     = (Json_ok,
        ex_db [ex_order 1 ''alice'' 15 ''Cancelled'' ''Unpaid'',
               ex_order 2 ''alice'' 15 ''Preparing'' ''Unpaid''] [])
   \<and> cancel_order (login_session ''alice'' ''user'') 1
        (ex_db [ex_order 1 ''alice'' 15 ''Cancelled'' ''Unpaid'',
                ex_order 2 ''alice'' 15 ''Preparing'' ''Unpaid''] [])
     = (Json_error ''Only pending orders can be cancelled'' 400,
        ex_db [ex_order 1 ''alice'' 15 ''Cancelled'' ''Unpaid'',
               ex_order 2 ''alice'' 15 ''Preparing'' ''Unpaid''] [])"
proof -
  let ?db = "ex_db [ex_order 1 ''alice'' 15 ''Pending'' ''Unpaid'',
                    ex_order 2 ''alice'' 15 ''Preparing'' ''Unpaid''] []"
  have g1: "get_order ?db 1 = Some (ex_order 1 ''alice'' 15 ''Pending'' ''Unpaid'')"
    and g2: "get_order ?db 2 = Some (ex_order 2 ''alice'' 15 ''Preparing'' ''Unpaid'')"
    by (simp_all add: get_order_def)
  have ok: "cancel_order (login_session ''alice'' ''user'') 1 ?db =
       (Json_ok, ex_db [ex_order 1 ''alice'' 15 ''Cancelled'' ''Unpaid'',
               ex_order 2 ''alice'' 15 ''Preparing'' ''Unpaid''] [])"
    by (simp add: cancel_order_def get_order_def update_order_ex_db)
  show ?thesis
    using g1 ok
      cancel_order_spec [OF g1, of "login_session ''bob'' ''user''"]
      cancel_order_spec [OF g1, of "login_session ''canteen_admin'' ''admin''"]
      cancel_order_spec [OF g2, of "login_session ''alice'' ''user''"]
      cancel_order_spec [OF g1, of "login_session ''alice'' ''user''"]
    by simp
qed

section \<open>Paying\<close>

lemma payment_gate:
  "\<not> is_logged_in sess \<or> is_admin sess \<Longrightarrow>
     payment sess meth frm oid db = (Redirect EP_login, db)"
  by (simp add: payment_def)

lemma payment_missing:
  "is_logged_in sess \<Longrightarrow> \<not> is_admin sess \<Longrightarrow> get_order db oid = None
    \<Longrightarrow> payment sess meth frm oid db = (Abort 404, db)"
  by (simp add: payment_def)

lemma payment_found:
  assumes "is_logged_in sess" "\<not> is_admin sess" "get_order db oid = Some ord"
  shows "payment sess meth frm oid db =
         (if username ord \<noteq> session_username sess then
            (Flash_redirect ''Not authorized'' ''danger'' EP_student_dashboard, db)
          else if meth = POST then
            (Flash_redirect
               (''Payment successful via '' @ form_get frm ''method'' ''None'' @ '' (dummy).'')
               ''success'' (EP_order_receipt oid),
             update_order oid (\<lambda>r. r\<lparr>payment_status := ''Paid''\<rparr>) db)
          else (Render_payment (total_price ord) ord, db))"
  using assms get_order_Some [OF assms(3)] by (simp add: payment_def)

text \<open>
  Claim C4. The owner test of the handler lets an admin pass
  (\<^verbatim>\<open>order.username != session['username'] and not is_admin()\<close>), and the receipt
  page states the same intent (\<^verbatim>\<open>only allow owner or admin\<close>). The handler never
  gets that far for an admin: its first test turns every admin session away. The admin's
  POST for Alice's unpaid order 1 is answered with the login page and the order stays
  \<^verbatim>\<open>Unpaid\<close>, where the owner's POST records the payment.
\<close>

theorem payment_admin_refused:
  "is_logged_in (login_session ''canteen_admin'' ''admin'')
   \<and> is_admin (login_session ''canteen_admin'' ''admin'')
   \<and> get_order (ex_db [ex_order 1 ''alice'' 15 ''Pending'' ''Unpaid''] []) 1
       = Some (ex_order 1 ''alice'' 15 ''Pending'' ''Unpaid'')
   \<and> payment (login_session ''canteen_admin'' ''admin'') POST [''method'' \<mapsto> ''Card''] 1
        (ex_db [ex_order 1 ''alice'' 15 ''Pending'' ''Unpaid''] [])
       = (Redirect EP_login, ex_db [ex_order 1 ''alice'' 15 ''Pending'' ''Unpaid''] [])
   \<and> payment (login_session ''alice'' ''user'') POST [''method'' \<mapsto> ''Card''] 1
        (ex_db [ex_order 1 ''alice'' 15 ''Pending'' ''Unpaid''] [])
       = (Flash_redirect ''Payment successful via Card (dummy).'' ''success''
            (EP_order_receipt 1),
          ex_db [ex_order 1 ''alice'' 15 ''Pending'' ''Paid''] [])"
  by (simp add: payment_def get_order_def form_get_def update_order_ex_db)

text \<open>After the admin's request the order is still unpaid; after Alice's it is paid.\<close>

theorem payment_admin_refused_witness:
  "map payment_status
     (orders (snd (payment (login_session ''canteen_admin'' ''admin'') POST
        [''method'' \<mapsto> ''Card''] 1
        (ex_db [ex_order 1 ''alice'' 15 ''Pending'' ''Unpaid''] [])))) = [''Unpaid'']
   \<and> map payment_status
     (orders (snd (payment (login_session ''alice'' ''user'') POST
        [''method'' \<mapsto> ''Card''] 1
        (ex_db [ex_order 1 ''alice'' 15 ''Pending'' ''Unpaid''] [])))) = [''Paid'']"
  using payment_admin_refused by simp

section \<open>Updating the status\<close>

















section \<open>Order history\<close>

lemma sum_filter_insort_key:
  "sum_list (map f (filter P (insort_key k x ys))) =
     (if P x then f x else (0::'a::comm_monoid_add)) + sum_list (map f (filter P ys))"
  by (induction ys) (auto simp: ac_simps)

lemma sum_filter_sort_key:
  "sum_list (map f (filter P (sort_key k xs))) =
     (sum_list (map f (filter P xs)) :: 'a::comm_monoid_add)"
  by (induction xs) (auto simp: sum_filter_insort_key)

lemma total_spent_rev: "total_spent (rev os) = total_spent os"
  unfolding total_spent_def by (simp add: rev_filter [symmetric] rev_map [symmetric])

lemma total_spent_user_orders:
  "total_spent (user_orders db u) =
     sum_list (map total_price
       (filter (\<lambda>r. username r = u \<and> payment_status r = ''Paid'') (orders db)))"
proof -
  have "total_spent (user_orders db u) =
        total_spent (sort_key created_at (filter (\<lambda>r. username r = u) (orders db)))"
    unfolding user_orders_def by (rule total_spent_rev)
  also have "\<dots> = sum_list (map total_price
      (filter (\<lambda>r. payment_status r = ''Paid'') (filter (\<lambda>r. username r = u) (orders db))))"
    unfolding total_spent_def by (rule sum_filter_sort_key)
  also have "\<dots> = sum_list (map total_price
      (filter (\<lambda>r. username r = u \<and> payment_status r = ''Paid'') (orders db)))"
    by (simp add: conj_commute)
  finally show ?thesis .
qed

lemma set_user_orders: "set (user_orders db u) = {r \<in> set (orders db). username r = u}"
  by (auto simp: user_orders_def)

text \<open>
  Claim C6. The total the history page shows to a student is the sum of
  \<^verbatim>\<open>total_price\<close> over the rows of the orders table that carry the student's name and
  the payment status \<^verbatim>\<open>Paid\<close>; the orders listed are exactly the student's. In the sum
  an order counts with its price when it is \<^verbatim>\<open>Paid\<close> and with nothing otherwise.
\<close>

theorem order_history_total_spent:
  "(is_logged_in sess \<and> \<not> is_admin sess \<longrightarrow>
      order_history sess db =
        Render_order_history (user_orders db (session_username sess))
          (sum_list (map total_price
             (filter (\<lambda>r. username r = session_username sess \<and> payment_status r = ''Paid'')
                (orders db))))
      \<and> set (user_orders db (session_username sess)) =
          {r \<in> set (orders db). username r = session_username sess})
   \<and> total_spent [] = 0
   \<and> total_spent (r # os) =
        (if payment_status r = ''Paid'' then total_price r else 0) + total_spent os"
proof (intro conjI impI)
  assume "is_logged_in sess \<and> \<not> is_admin sess"
  then show "order_history sess db =
        Render_order_history (user_orders db (session_username sess))
          (sum_list (map total_price
             (filter (\<lambda>r. username r = session_username sess \<and> payment_status r = ''Paid'')
                (orders db))))"
    by (simp add: order_history_def Let_def total_spent_user_orders)
  show "set (user_orders db (session_username sess)) =
          {r \<in> set (orders db). username r = session_username sess}"
    by (rule set_user_orders)
next
  show "total_spent [] = 0"
    by (simp add: total_spent_def)
  show "total_spent (r # os) =
        (if payment_status r = ''Paid'' then total_price r else 0) + total_spent os"
    by (simp add: total_spent_def)
qed

text \<open>
  Alice's orders priced 100 (\<^verbatim>\<open>Paid\<close>), 50 (\<^verbatim>\<open>Unpaid\<close>), 30 (\<^verbatim>\<open>Paid\<close>) and 20
  (\<^verbatim>\<open>Failed\<close>) beside a paid order of Bob's: her history lists her four orders, latest
  first, with the total 130.
\<close>

theorem order_history_total_spent_witness:
  "order_history (login_session ''alice'' ''user'')
     (ex_db [ex_order 1 ''alice'' 100 ''Completed'' ''Paid'',
             ex_order 2 ''alice'' 50 ''Pending'' ''Unpaid'',
             ex_order 3 ''bob'' 80 ''Ready'' ''Paid'',
             ex_order 4 ''alice'' 30 ''Ready'' ''Paid'',
             ex_order 5 ''alice'' 20 ''Pending'' ''Failed''] [])
   = Render_order_history
       [ex_order 5 ''alice'' 20 ''Pending'' ''Failed'',
        ex_order 4 ''alice'' 30 ''Ready'' ''Paid'',
        ex_order 2 ''alice'' 50 ''Pending'' ''Unpaid'',
        ex_order 1 ''alice'' 100 ''Completed'' ''Paid''] (Finite 130)
   \<and> total_spent [ex_order 1 ''alice'' 100 ''Completed'' ''Paid'',
                  ex_order 2 ''alice'' 50 ''Pending'' ''Unpaid'',
                  ex_order 4 ''alice'' 30 ''Ready'' ''Paid''] = Finite 130"
proof -
  let ?os = "[ex_order 1 ''alice'' 100 ''Completed'' ''Paid'',
             ex_order 2 ''alice'' 50 ''Pending'' ''Unpaid'',
             ex_order 3 ''bob'' 80 ''Ready'' ''Paid'',
             ex_order 4 ''alice'' 30 ''Ready'' ''Paid'',
             ex_order 5 ''alice'' 20 ''Pending'' ''Failed'']"
  have u: "user_orders (ex_db ?os []) ''alice'' =
       [ex_order 5 ''alice'' 20 ''Pending'' ''Failed'',
        ex_order 4 ''alice'' 30 ''Ready'' ''Paid'',
        ex_order 2 ''alice'' 50 ''Pending'' ''Unpaid'',
        ex_order 1 ''alice'' 100 ''Completed'' ''Paid'']"
    by (simp add: user_orders_def)
  note t = order_history_total_spent
  have one: "total_spent [ex_order 4 ''alice'' 30 ''Ready'' ''Paid''] = Finite 30"
    using t [of _ _ "ex_order 4 ''alice'' 30 ''Ready'' ''Paid''" "[]"] by simp
  have two: "total_spent [ex_order 2 ''alice'' 50 ''Pending'' ''Unpaid'',
                  ex_order 4 ''alice'' 30 ''Ready'' ''Paid''] = Finite 30"
    using one t [of _ _ "ex_order 2 ''alice'' 50 ''Pending'' ''Unpaid''"
        "[ex_order 4 ''alice'' 30 ''Ready'' ''Paid'']"] by simp
  have three: "total_spent [ex_order 1 ''alice'' 100 ''Completed'' ''Paid'',
                  ex_order 2 ''alice'' 50 ''Pending'' ''Unpaid'',
                  ex_order 4 ''alice'' 30 ''Ready'' ''Paid''] = Finite 130"
    using two t [of _ _ "ex_order 1 ''alice'' 100 ''Completed'' ''Paid''"
        "[ex_order 2 ''alice'' 50 ''Pending'' ''Unpaid'',
          ex_order 4 ''alice'' 30 ''Ready'' ''Paid'']"] by simp
  show ?thesis
    using u three t [of "login_session ''alice'' ''user''" "ex_db ?os []"]
    by simp
qed

section \<open>Doubles\<close>

lemma floor_rat_numeral: "\<lfloor>numeral a / numeral b :: rat\<rfloor> = numeral a div numeral b"
  using floor_divide_of_int_eq [of "numeral a" "numeral b", where ?'a = rat] by simp

lemma bitlen_eq:
  assumes "2 ^ k \<le> n" "n < 2 ^ Suc k"
  shows "bitlen n = int k + 1"
proof -
  from assms have pos: "0 < n"
    by (meson less_le_trans zero_less_numeral zero_less_power)
  from bitlen_bounds [OF pos] have b: "2 ^ nat (bitlen n - 1) \<le> n" "n < 2 ^ nat (bitlen n)"
    by simp_all
  from b(1) assms(2) have "(2::int) ^ nat (bitlen n - 1) < 2 ^ Suc k"
    by (rule le_less_trans)
  then have "nat (bitlen n - 1) < Suc k"
    by (rule power_less_imp_less_exp [rotated]) simp
  moreover from assms(1) b(2) have "(2::int) ^ k < 2 ^ nat (bitlen n)"
    by (rule le_less_trans)
  then have "k < nat (bitlen n)"
    by (rule power_less_imp_less_exp [rotated]) simp
  ultimately show ?thesis
    by linarith
qed

lemma float_exp_eq:
  assumes "2 powi e \<le> \<bar>q\<bar>" "\<bar>q\<bar> < 2 powi (e + 1)" "- 1022 \<le> e"
  shows "float_exp q = e"
proof -
  define k where "k = nat (e + 1074)"
  have ke: "int k = e + 1074"
    using assms(3) by (simp add: k_def)
  have p: "(2::rat) powi e * 2 ^ 1074 = 2 ^ k" "(2::rat) powi (e + 1) * 2 ^ 1074 = 2 ^ Suc k"
  proof -
    have "(2::rat) powi e * 2 ^ 1074 = 2 powi (e + 1074)"
      by (simp add: power_int_add)
    also have "\<dots> = 2 powi (int k)" by (simp add: ke)
    finally show "(2::rat) powi e * 2 ^ 1074 = 2 ^ k" by simp
    have "(2::rat) powi (e + 1) * 2 ^ 1074 = 2 powi (e + 1 + 1074)"
      by (simp add: power_int_add)
    also have "\<dots> = 2 powi (int (Suc k))" by (simp add: ke)
    finally show "(2::rat) powi (e + 1) * 2 ^ 1074 = 2 ^ Suc k" by (simp only: power_int_of_nat)
  qed
  let ?y = "\<bar>q\<bar> * 2 ^ 1074"
  have "2 ^ k \<le> ?y"
    using assms(1) p(1) by (metis mult_right_mono zero_le_numeral zero_le_power)
  then have lo: "2 ^ k \<le> \<lfloor>?y\<rfloor>"
    by (simp add: le_floor_iff)
  have "?y < 2 ^ Suc k"
    using assms(2) p(2) by (metis mult_strict_right_mono zero_less_numeral zero_less_power)
  then have hi: "\<lfloor>?y\<rfloor> < 2 ^ Suc k"
    by (simp add: floor_less_iff)
  from bitlen_eq [OF lo hi] have "bitlen \<lfloor>?y\<rfloor> = e + 1075"
    using ke by simp
  with assms(3) show ?thesis
    by (simp add: float_exp_def)
qed

lemma float_exp_0: "float_exp 0 = - 1022"
  by (simp add: float_exp_def)

lemma round_half_even_of_int: "round_half_even (of_int m) = m"
  by (simp add: round_half_even_def)

lemma double_round_0: "double_round 0 = 0"
  by (simp add: double_round_def round_half_even_def)

lemma round_half_even_near: "\<bar>of_int (round_half_even x) - x\<bar> \<le> 1 / 2"
proof -
  have "of_int \<lfloor>x\<rfloor> \<le> x" "x < of_int \<lfloor>x\<rfloor> + 1"
    by linarith+
  then show ?thesis
    unfolding round_half_even_def Let_def by (auto simp: abs_le_iff)
qed

lemma double_round_near:
  "\<bar>double_round q - q\<bar> \<le> 2 powi (float_exp q - 52) / 2"
proof -
  let ?u = "(2::rat) powi (float_exp q - 52)"
  have u: "0 < ?u" by simp
  have "double_round q - q = (of_int (round_half_even (q / ?u)) - q / ?u) * ?u"
    using u by (simp add: double_round_def Let_def algebra_simps)
  then have "\<bar>double_round q - q\<bar> = \<bar>of_int (round_half_even (q / ?u)) - q / ?u\<bar> * ?u"
    using u by (simp add: abs_mult)
  also have "\<dots> \<le> 1 / 2 * ?u"
    using round_half_even_near [of "q / ?u"] u by (intro mult_right_mono) simp_all
  finally show ?thesis by simp
qed

lemma double_round_rel:
  assumes "2 powi e \<le> \<bar>q\<bar>" "\<bar>q\<bar> < 2 powi (e + 1)" "- 1022 \<le> e"
  shows "\<bar>double_round q - q\<bar> \<le> \<bar>q\<bar> / 2 ^ 53"
proof -
  have e: "float_exp q = e"
    using assms by (rule float_exp_eq)
  have "(2::rat) powi (e - 52) / 2 = 2 powi e / 2 ^ 53"
    by (simp add: power_int_diff)
  also have "\<dots> \<le> \<bar>q\<bar> / 2 ^ 53"
    using assms(1) by (simp add: divide_right_mono)
  finally show ?thesis
    using double_round_near [of q] by (simp add: e)
qed

lemma double_round_exact:
  assumes "2 powi e \<le> \<bar>q\<bar>" "\<bar>q\<bar> < 2 powi (e + 1)" "- 1022 \<le> e"
    and "q / 2 powi (e - 52) = of_int m"
  shows "double_round q = q"
proof -
  have e: "float_exp q = e"
    using assms(1-3) by (rule float_exp_eq)
  have "double_round q = of_int m * 2 powi (e - 52)"
    by (simp add: double_round_def e assms(4) round_half_even_of_int)
  also have "\<dots> = q"
    using assms(4) by (simp add: field_simps)
  finally show ?thesis .
qed

lemma double_round_1_8:
  assumes "1 \<le> q" "q < 8"
  shows "\<bar>double_round q - q\<bar> \<le> q / 2 ^ 53"
proof -
  have q: "\<bar>q\<bar> = q" using assms by simp
  consider "q < 2" | "2 \<le> q" "q < 4" | "4 \<le> q"
    by linarith
  then show ?thesis
  proof cases
    case 1
    with assms show ?thesis
      using double_round_rel [of 0 q] by (simp add: q)
  next
    case 2
    with assms show ?thesis
      using double_round_rel [of 1 q] by (simp add: q)
  next
    case 3
    with assms show ?thesis
      using double_round_rel [of 2 q] by (simp add: q)
  qed
qed

lemma double_of_rat_1_8:
  assumes "1 \<le> q" "q < 8"
  shows "double_of_rat q = Finite (double_round q)"
proof -
  from double_round_1_8 [OF assms] have "\<bar>double_round q - q\<bar> \<le> q"
    using assms by (simp add: field_simps)
  with assms have "- 8 < double_round q" "double_round q < 16"
    by (simp_all add: abs_le_iff)
  then show ?thesis
    by (simp add: double_of_rat_def Let_def)
qed

lemma nearest_hundredth:
  fixes s :: int and n :: nat
  assumes n: "0 < n" and s: "int n \<le> s" "s \<le> 5 * int n" and big: "1000 * int n < 2 ^ 53"
  defines "q \<equiv> of_int s / of_nat n :: rat"
  defines "k \<equiv> round_half_even (double_round q * 100)"
  shows "\<bar>of_int k / 100 - q\<bar> \<le> 1 / 200" and "100 \<le> k" and "k \<le> 500"
proof -
  let ?N = "of_nat n :: rat" and ?S = "of_int s :: rat" and ?K = "of_int k :: rat"
  have N: "0 < ?N" using n by simp
  have qN: "q * ?N = ?S" using N by (simp add: q_def)
  have SN: "?N \<le> ?S" "?S \<le> 5 * ?N"
  proof -
    have "of_int (int n) \<le> ?S" using s(1) by (simp only: of_int_le_iff)
    then show "?N \<le> ?S" by simp
    have "?S \<le> of_int (5 * int n)" using s(2) by (simp only: of_int_le_iff)
    then show "?S \<le> 5 * ?N" by simp
  qed
  have q15: "1 \<le> q" "q \<le> 5"
    using SN N by (simp_all add: q_def field_simps)
  have S200: "200 * ?S < 2 ^ 53"
  proof -
    have "200 * s < 2 ^ 53" using s(2) big by linarith
    then have "of_int (200 * s) < (of_int (2 ^ 53) :: rat)" by (simp only: of_int_less_iff)
    then show ?thesis by simp
  qed
  have x: "\<bar>double_round q - q\<bar> \<le> q / 2 ^ 53"
    using q15 by (intro double_round_1_8) simp_all
  have r: "\<bar>?K - double_round q * 100\<bar> \<le> 1 / 2"
    unfolding k_def by (rule round_half_even_near)
  have "\<bar>?K - 100 * q\<bar> \<le> \<bar>?K - double_round q * 100\<bar> + 100 * \<bar>double_round q - q\<bar>"
    by (simp add: abs_le_iff algebra_simps abs_if split: if_splits)
  also have "\<dots> \<le> 1 / 2 + 100 * (q / 2 ^ 53)"
    using x r by (intro add_mono mult_left_mono) simp_all
  finally have A: "\<bar>?K - 100 * q\<bar> \<le> 1 / 2 + 100 * (q / 2 ^ 53)" .
  have "100 * (q / 2 ^ 53) * (2 * ?N) = 200 * ?S / 2 ^ 53"
    using qN by (simp add: field_simps)
  also have "\<dots> < 1" using S200 by simp
  finally have small: "100 * (q / 2 ^ 53) * (2 * ?N) < 1" .
  have "\<bar>?K - 100 * q\<bar> * (2 * ?N) \<le> (1 / 2 + 100 * (q / 2 ^ 53)) * (2 * ?N)"
    using A N by (intro mult_right_mono) simp_all
  also have "\<dots> = ?N + 100 * (q / 2 ^ 53) * (2 * ?N)"
    by (simp add: algebra_simps)
  also have "\<dots> < ?N + 1" using small by simp
  finally have B: "\<bar>?K - 100 * q\<bar> * (2 * ?N) < ?N + 1" .
  have e: "\<bar>?K - 100 * q\<bar> * (2 * ?N) = \<bar>of_int (2 * k * int n - 200 * s)\<bar>"
  proof -
    have "(?K - 100 * q) * (2 * ?N) = 2 * ?K * ?N - 200 * (q * ?N)"
      by (simp add: algebra_simps)
    also have "\<dots> = of_int (2 * k * int n - 200 * s)"
      by (simp add: qN)
    finally have "\<bar>(?K - 100 * q) * (2 * ?N)\<bar> = \<bar>of_int (2 * k * int n - 200 * s) :: rat\<bar>"
      by simp
    then show ?thesis using N by (simp add: abs_mult)
  qed
  have "(of_int \<bar>2 * k * int n - 200 * s\<bar> :: rat) < of_int (int n + 1)"
    using B unfolding e by simp
  then have "\<bar>2 * k * int n - 200 * s\<bar> < int n + 1"
    by (simp only: of_int_less_iff)
  then have "\<bar>2 * k * int n - 200 * s\<bar> \<le> int n" by simp
  then have "(of_int \<bar>2 * k * int n - 200 * s\<bar> :: rat) \<le> of_int (int n)"
    by (simp only: of_int_le_iff)
  then have C: "\<bar>?K - 100 * q\<bar> * (2 * ?N) \<le> ?N"
    unfolding e by simp
  have D: "\<bar>?K - 100 * q\<bar> \<le> 1 / 2"
  proof -
    from C have "\<bar>?K - 100 * q\<bar> * (2 * ?N) \<le> 1 / 2 * (2 * ?N)" by simp
    then show ?thesis using N by (simp only: mult_le_cancel_right split: if_splits)
  qed
  then show "\<bar>of_int k / 100 - q\<bar> \<le> 1 / 200"
    by (simp add: abs_le_iff field_simps)
  have "(99::rat) < ?K" "?K < (501::rat)"
    using D q15 by linarith+
  then have "99 < k" "k < 501"
    by simp_all
  then show "100 \<le> k" "k \<le> 500" by simp_all
qed

lemma double_of_rat_exact:
  assumes "2 powi e \<le> \<bar>q\<bar>" "\<bar>q\<bar> < 2 powi (e + 1)" "- 1022 \<le> e" "e < 1024"
    and "q / 2 powi (e - 52) = of_int m"
  shows "double_of_rat q = Finite q"
proof -
  have "(2::rat) powi (e + 1) \<le> 2 powi 1024"
    using assms(4) by (intro power_int_increasing) simp_all
  with assms(2) have "\<bar>q\<bar> < 2 ^ 1024"
    by simp
  then show ?thesis
    using double_round_exact [OF assms(1-3,5)] by (simp add: double_of_rat_def abs_less_iff)
qed

lemma double_of_rat_0: "double_of_rat 0 = Finite 0"
  by (simp add: double_of_rat_def double_round_0)

section \<open>Average rating\<close>

lemma sum_ratings_bounds:
  "\<forall>r \<in> set rs. 1 \<le> r \<and> r \<le> 5 \<Longrightarrow>
     int (length rs) \<le> sum_list rs \<and> sum_list rs \<le> 5 * int (length rs)"
  by (induction rs) auto

lemma avg_rating_value:
  assumes "rs = map rating (filter (\<lambda>r. item_id r = i) (feedbacks db))" "rs \<noteq> []"
    and "\<forall>r \<in> set rs. 1 \<le> r \<and> r \<le> 5"
  shows "avg_rating db i =
         Inr (Some (py_round (double_round (of_int (sum_list rs) / of_nat (length rs))) 2))"
proof -
  let ?q = "of_int (sum_list rs) / of_nat (length rs) :: rat"
  have n: "0 < length rs" using assms(2) by simp
  then have N: "0 < (of_nat (length rs) :: rat)" by simp
  from sum_ratings_bounds [OF assms(3)]
  have "(of_int (int (length rs)) :: rat) \<le> of_int (sum_list rs)"
    "(of_int (sum_list rs) :: rat) \<le> of_int (5 * int (length rs))"
    by (simp_all only: of_int_le_iff)
  then have "1 \<le> ?q" "?q \<le> 5"
    using N by (simp_all add: field_simps)
  then have "1 \<le> ?q" "?q < 8"
    by simp_all
  then have "double_of_rat ?q = Finite (double_round ?q)"
    by (rule double_of_rat_1_8)
  then have "true_div (sum_list rs) (int (length rs)) = Inr (double_round ?q)"
    using n by (simp add: true_div_def)
  then show ?thesis
    using assms(1,2) by (simp add: avg_rating_def Let_def)
qed

lemma menu_rows_avg:
  "menu_rows db cur its = Inr rows \<Longrightarrow>
     map (\<lambda>(it, a, avg). (it, Inr avg)) rows = map (\<lambda>it. (it, avg_rating db (mi_id it))) its"
  by (induction its arbitrary: rows) (auto split: sum.splits)

text \<open>
  Claim C7. An item without feedback has no average: the result is \<^verbatim>\<open>None\<close>, not a
  number. An item with the ratings \<open>rs\<close>, each from 1 to 5 and fewer of them than
  \<open>2\<^sup>5\<^sup>3 / 1000\<close>, has one: the double nearest to a whole number of hundredths that
  lies within half a hundredth of the arithmetic mean of \<open>rs\<close>; the double differs
  from that decimal by less than \<open>2\<^sup>-\<^sup>5\<^sup>0\<close>. The hundredth is the one nearest to
  the quotient that the division returns, which is the double nearest to the mean, and
  the even one when that quotient lies halfway. The menu page shows every item, in the
  order of the names, with this average.
\<close>

theorem avg_rating_spec:
  "(filter (\<lambda>r. item_id r = i) (feedbacks db) = [] \<longrightarrow> avg_rating db i = Inr None)
   \<and> (rs = map rating (filter (\<lambda>r. item_id r = i) (feedbacks db)) \<and> rs \<noteq> []
        \<and> (\<forall>r \<in> set rs. 1 \<le> r \<and> r \<le> 5) \<and> 1000 * int (length rs) < 2 ^ 53 \<longrightarrow>
        (\<exists>k. avg_rating db i = Inr (Some (double_round (of_int k / 100)))
           \<and> \<bar>of_int k / 100 - of_int (sum_list rs) / of_nat (length rs) :: rat\<bar> \<le> 1 / 200
           \<and> \<bar>double_round (of_int k / 100) - of_int k / 100\<bar> \<le> 1 / 2 ^ 50
           \<and> k = round_half_even
                 (double_round (of_int (sum_list rs) / of_nat (length rs)) * 100)))
   \<and> (menu sess cur db = Render_menu rows \<longrightarrow>
        map (\<lambda>(it, a, avg). (it, Inr avg)) rows =
          map (\<lambda>it. (it, avg_rating db (mi_id it))) (sort_key mi_name (menu_items db)))"
proof (intro conjI impI)
  assume "filter (\<lambda>r. item_id r = i) (feedbacks db) = []"
  then show "avg_rating db i = Inr None"
    by (simp add: avg_rating_def)
next
  assume "menu sess cur db = Render_menu rows"
  then have "menu_rows db cur (sort_key mi_name (menu_items db)) = Inr rows"
    by (auto simp: menu_def split: if_splits sum.splits)
  then show "map (\<lambda>(it, a, avg). (it, Inr avg)) rows =
          map (\<lambda>it. (it, avg_rating db (mi_id it))) (sort_key mi_name (menu_items db))"
    by (rule menu_rows_avg)
next
  assume a: "rs = map rating (filter (\<lambda>r. item_id r = i) (feedbacks db)) \<and> rs \<noteq> []
        \<and> (\<forall>r \<in> set rs. 1 \<le> r \<and> r \<le> 5) \<and> 1000 * int (length rs) < 2 ^ 53"
  let ?q = "of_int (sum_list rs) / of_nat (length rs) :: rat"
  let ?k = "round_half_even (double_round ?q * 100)"
  from a have a1: "rs = map rating (filter (\<lambda>r. item_id r = i) (feedbacks db))"
    and a2: "rs \<noteq> []" and a3: "\<forall>r \<in> set rs. 1 \<le> r \<and> r \<le> 5"
    and big: "1000 * int (length rs) < 2 ^ 53"
    by blast+
  from a2 have n: "0 < length rs" by simp
  from sum_ratings_bounds [OF a3]
  have sb: "int (length rs) \<le> sum_list rs" "sum_list rs \<le> 5 * int (length rs)"
    by blast+
  note h = nearest_hundredth [OF n sb big]
  have v: "avg_rating db i = Inr (Some (double_round (of_int ?k / 100)))"
    using avg_rating_value [OF a1 a2 a3] by (simp add: py_round_def)
  have "(of_int 100 :: rat) \<le> of_int ?k" "(of_int ?k :: rat) \<le> of_int 500"
    using h(2,3) by (simp_all only: of_int_le_iff)
  then have r: "1 \<le> (of_int ?k / 100 :: rat)" "(of_int ?k / 100 :: rat) \<le> 5"
    by simp_all
  then have "\<bar>double_round (of_int ?k / 100) - of_int ?k / 100\<bar> \<le> of_int ?k / 100 / 2 ^ 53"
    by (intro double_round_1_8) simp_all
  also have "\<dots> \<le> 5 / 2 ^ 53"
    using r(2) by (intro divide_right_mono) simp_all
  also have "\<dots> \<le> 1 / 2 ^ 50"
    by simp
  finally have d: "\<bar>double_round (of_int ?k / 100) - of_int ?k / 100\<bar> \<le> 1 / 2 ^ 50" .
  from v h(1) d
  show "\<exists>k. avg_rating db i = Inr (Some (double_round (of_int k / 100)))
           \<and> \<bar>of_int k / 100 - of_int (sum_list rs) / of_nat (length rs) :: rat\<bar> \<le> 1 / 200
           \<and> \<bar>double_round (of_int k / 100) - of_int k / 100\<bar> \<le> 1 / 2 ^ 50
           \<and> k = round_half_even
                 (double_round (of_int (sum_list rs) / of_nat (length rs)) * 100)"
    by blast
qed

lemma float_exp_examples:
  "float_exp (43 / 40) = 0" "float_exp (107 / 100) = 0" "float_exp (9 / 8) = 0"
  "float_exp (28 / 25) = 0"
  by (rule float_exp_eq; simp)+

lemma double_round_examples:
  "double_round 4 = 4" "double_round 3 = 3" "double_round (9 / 8) = 9 / 8"
  "double_round (43 / 40) = 4841369599423283 / 4503599627370496"
  "double_round (107 / 100) = 4818851601286431 / 4503599627370496"
  "double_round (28 / 25) = 1261007895663739 / 1125899906842624"
proof -
  show "double_round 4 = 4"
    by (rule double_round_exact [of 2 _ "2 ^ 52"]) simp_all
  show "double_round 3 = 3"
    by (rule double_round_exact [of 1 _ "3 * 2 ^ 51"]) simp_all
  show "double_round (9 / 8) = 9 / 8"
    by (rule double_round_exact [of 0 _ "9 * 2 ^ 49"]) simp_all
  show "double_round (43 / 40) = 4841369599423283 / 4503599627370496"
    by (simp add: double_round_def float_exp_examples round_half_even_def Let_def
        floor_rat_numeral)
  show "double_round (107 / 100) = 4818851601286431 / 4503599627370496"
    by (simp add: double_round_def float_exp_examples round_half_even_def Let_def
        floor_rat_numeral)
  show "double_round (28 / 25) = 1261007895663739 / 1125899906842624"
    by (simp add: double_round_def float_exp_examples round_half_even_def Let_def
        floor_rat_numeral)
qed

lemma py_round_examples:
  "py_round (4841369599423283 / 4503599627370496) 2 = 4818851601286431 / 4503599627370496"
  "py_round (9 / 8) 2 = 1261007895663739 / 1125899906842624"
  by (simp_all add: py_round_def round_half_even_def Let_def floor_rat_numeral
      double_round_examples)

text \<open>
  Item 3 without feedback; with the ratings 3 and 5 (item 1 has a rating of its own);
  with the ratings 1 to 5; with seven ratings 1 and one rating 2, whose mean 1.125 is a
  double and lies halfway between 1.12 and 1.13; and with 37 ratings 1 and three ratings
  2, whose mean 1.075 is no double: the quotient is the double just below it, and the
  average is the double of 1.07. The menu page of a menu of one item.
\<close>

theorem avg_rating_spec_witness:
  "avg_rating (ex_db [] [ex_feedback 1 1 2]) 3 = Inr None
   \<and> avg_rating (ex_db [] [ex_feedback 1 3 3, ex_feedback 2 1 1, ex_feedback 3 3 5]) 3
       = Inr (Some 4)
   \<and> avg_rating (ex_db [] [ex_feedback 1 3 1, ex_feedback 2 3 2, ex_feedback 3 3 3,
        ex_feedback 4 3 4, ex_feedback 5 3 5]) 3 = Inr (Some 3)
   \<and> avg_rating (ex_db [] [ex_feedback 1 3 1, ex_feedback 2 3 1, ex_feedback 3 3 1,
        ex_feedback 4 3 1, ex_feedback 5 3 1, ex_feedback 6 3 1, ex_feedback 7 3 1,
        ex_feedback 8 3 2]) 3 = Inr (Some (double_round (112 / 100)))
   \<and> double_round (112 / 100) = 1261007895663739 / 1125899906842624
   \<and> avg_rating (ex_db []
        (map (\<lambda>j. ex_feedback j 3 1) [1..<38] @ map (\<lambda>j. ex_feedback j 3 2) [38..<41])) 3
       = Inr (Some (double_round (107 / 100)))
   \<and> double_round (107 / 100) = 4818851601286431 / 4503599627370496
   \<and> menu (login_session ''alice'' ''user'')
        \<lparr>hour = 10, minute = 0, second = 0, microsecond = 0\<rparr>
        \<lparr>menu_items =
           [\<lparr>mi_id = 3, mi_name = ''Samosa'', price = Finite 15, available = True,
             available_from = Some ''09:00'', available_to = Some ''17:00''\<rparr>],
         orders = [],
         feedbacks = [ex_feedback 1 3 3, ex_feedback 2 1 1, ex_feedback 3 3 5]\<rparr>
     = Render_menu
         [(\<lparr>mi_id = 3, mi_name = ''Samosa'', price = Finite 15, available = True,
            available_from = Some ''09:00'', available_to = Some ''17:00''\<rparr>, True, Some 4)]"
proof -
  note s = avg_rating_spec
  have a: "avg_rating (ex_db [] [ex_feedback 1 1 2]) 3 = Inr None"
    using s [of 3 "ex_db [] [ex_feedback 1 1 2]", THEN conjunct1]
    by (simp add: ex_feedback_def)
  have b: "avg_rating (ex_db [] [ex_feedback 1 3 3, ex_feedback 2 1 1, ex_feedback 3 3 5]) 3
      = Inr (Some 4)"
  proof -
    obtain k :: int where k:
      "avg_rating (ex_db [] [ex_feedback 1 3 3, ex_feedback 2 1 1, ex_feedback 3 3 5]) 3
         = Inr (Some (double_round (of_int k / 100)))"
      "\<bar>of_int k / 100 - 4 :: rat\<bar> \<le> 1 / 200"
      using s [of 3 "ex_db [] [ex_feedback 1 3 3, ex_feedback 2 1 1, ex_feedback 3 3 5]"
          "[3, 5]", THEN conjunct2, THEN conjunct1]
      by (auto simp: ex_feedback_def)
    from k(2) have "k = 400" by linarith
    with k(1) show ?thesis by (simp add: double_round_examples)
  qed
  have c: "avg_rating (ex_db [] [ex_feedback 1 3 1, ex_feedback 2 3 2, ex_feedback 3 3 3,
        ex_feedback 4 3 4, ex_feedback 5 3 5]) 3 = Inr (Some 3)"
  proof -
    obtain k :: int where k:
      "avg_rating (ex_db [] [ex_feedback 1 3 1, ex_feedback 2 3 2, ex_feedback 3 3 3,
        ex_feedback 4 3 4, ex_feedback 5 3 5]) 3 = Inr (Some (double_round (of_int k / 100)))"
      "\<bar>of_int k / 100 - 3 :: rat\<bar> \<le> 1 / 200"
      using s [of 3 "ex_db [] [ex_feedback 1 3 1, ex_feedback 2 3 2, ex_feedback 3 3 3,
        ex_feedback 4 3 4, ex_feedback 5 3 5]" "[1, 2, 3, 4, 5]",
          THEN conjunct2, THEN conjunct1]
      by (auto simp: ex_feedback_def)
    from k(2) have "k = 300" by linarith
    with k(1) show ?thesis by (simp add: double_round_examples)
  qed
  have d: "avg_rating (ex_db [] [ex_feedback 1 3 1, ex_feedback 2 3 1, ex_feedback 3 3 1,
        ex_feedback 4 3 1, ex_feedback 5 3 1, ex_feedback 6 3 1, ex_feedback 7 3 1,
        ex_feedback 8 3 2]) 3 = Inr (Some (double_round (112 / 100)))"
    using avg_rating_value [of "[1, 1, 1, 1, 1, 1, 1, 2]" 3
        "ex_db [] [ex_feedback 1 3 1, ex_feedback 2 3 1, ex_feedback 3 3 1,
        ex_feedback 4 3 1, ex_feedback 5 3 1, ex_feedback 6 3 1, ex_feedback 7 3 1,
        ex_feedback 8 3 2]"]
    by (simp add: ex_feedback_def double_round_examples py_round_def round_half_even_def
        Let_def floor_rat_numeral)
  let ?fs = "map (\<lambda>j. ex_feedback j 3 1) [1..<38] @ map (\<lambda>j. ex_feedback j 3 2) [38..<41]"
  have rs: "map rating (filter (\<lambda>r. item_id r = 3) (feedbacks (ex_db [] ?fs)))
      = replicate 37 1 @ [2, 2, 2]"
    by (simp add: filter_map comp_def ex_feedback_def map_replicate_const)
  have e: "avg_rating (ex_db [] ?fs) 3 = Inr (Some (double_round (107 / 100)))"
  proof -
    have r1: "replicate 37 1 @ [2, 2, 2]
        = map rating (filter (\<lambda>r. item_id r = 3) (feedbacks (ex_db [] ?fs)))"
      by (simp only: rs)
    have r2: "replicate 37 (1::int) @ [2, 2, 2] \<noteq> []"
      by simp
    have r3: "\<forall>r \<in> set (replicate 37 (1::int) @ [2, 2, 2]). 1 \<le> r \<and> r \<le> 5"
      by simp
    have sm: "sum_list (replicate 37 (1::int) @ [2, 2, 2]) = 43"
      by (simp add: sum_list_replicate)
    have ln: "length (replicate 37 (1::int) @ [2, 2, 2]) = 40"
      by simp
    have "py_round (double_round (43 / 40)) 2 = double_round (107 / 100)"
      by (simp add: double_round_examples py_round_examples)
    then have "py_round (double_round (of_int (sum_list (replicate 37 1 @ [2, 2, 2]))
        / of_nat (length (replicate 37 (1::int) @ [2, 2, 2])))) 2 = double_round (107 / 100)"
      unfolding sm ln by simp
    with avg_rating_value [OF r1 r2 r3] show ?thesis
      by (simp only:)
  qed
  let ?samosa = "\<lparr>mi_id = 3, mi_name = ''Samosa'', price = Finite 15, available = True,
      available_from = Some ''09:00'', available_to = Some ''17:00''\<rparr>"
  let ?db = "\<lparr>menu_items = [?samosa], orders = [],
      feedbacks = [ex_feedback 1 3 3, ex_feedback 2 1 1, ex_feedback 3 3 5]\<rparr>"
  let ?now = "\<lparr>hour = 10, minute = 0, second = 0, microsecond = 0\<rparr>"
  have f: "menu (login_session ''alice'' ''user'') ?now ?db = Render_menu [(?samosa, True, Some 4)]"
  proof -
    have v: "avg_rating ?db 3 = Inr (Some 4)"
      using b by (simp add: avg_rating_def)
    then show ?thesis
      by (simp add: menu_def in_availability_def truthy_def strptime_defs time_le_def
          time_key_def)
  qed
  have g: "double_round (112 / 100) = 1261007895663739 / 1125899906842624"
    "double_round (107 / 100) = 4818851601286431 / 4503599627370496"
    using double_round_examples by simp_all
  from a b c d e f g show ?thesis by simp
qed

section \<open>Adding a menu item\<close>

lemmas py_float_defs =
  py_float_def py_strip_def is_space_def unsigned_float_def split_at_def mantissa_def
  signed_digitpart_def digitpart_def digit_of_def digits_val_def ci_match_def Let_def

lemma init_db_ids: "map mi_id (menu_items init_db) = [1, 2, 3, 4, 5, 6, 7, 8]"
  by (simp add: init_db_def sample_def enumerate_eq_zip upt_rec)

lemma next_id_init_db: "next_id (map mi_id (menu_items init_db)) = 9"
  by (simp add: init_db_ids next_id_def)

lemma double_of_rat_minus_5: "double_of_rat (- 5) = Finite (- 5)"
  by (rule double_of_rat_exact [of 2 _ "- 5 * 2 ^ 50"]) simp_all

lemma double_of_rat_25_2: "double_of_rat (25 / 2) = Finite (25 / 2)"
  by (rule double_of_rat_exact [of 3 _ "25 * 2 ^ 48"]) simp_all

lemma py_float_examples:
  "py_float ''-5'' = Some (Finite (- 5))"
  "py_float ''0'' = Some (Finite 0)"
  "py_float ''12.50'' = Some (Finite (25 / 2))"
  "py_float ''cheap'' = None"
  "py_float ''inf'' = Some PosInf"
  "py_float ''-Infinity'' = Some NegInf"
  "py_float ''nan'' = Some NaN"
  by (simp_all add: py_float_defs double_of_rat_minus_5 double_of_rat_0 double_of_rat_25_2)

lemma admin_menu_gate:
  "\<not> is_logged_in sess \<or> \<not> is_admin sess \<Longrightarrow>
     admin_menu sess meth frm db = (Redirect EP_login, db)"
  by (auto simp: admin_menu_def)

text \<open>
  Claim C8, as stated, fails: a price has to parse as a number and need not be
  positive. The admin's item with the price \<^verbatim>\<open>-5\<close> is stored, and so is one with
  the price \<^verbatim>\<open>0\<close>.
\<close>

theorem admin_menu_counterexample:
  "admin_menu (login_session ''canteen_admin'' ''admin'') POST
     [''name'' \<mapsto> ''Tea'', ''price'' \<mapsto> ''-5''] init_db
   = (Flash_redirect ''Item added'' ''success'' EP_admin_menu,
      init_db\<lparr>menu_items := menu_items init_db @
        [\<lparr>mi_id = 9, mi_name = ''Tea'', price = Finite (- 5), available = True,
          available_from = None, available_to = None\<rparr>]\<rparr>)
   \<and> admin_menu (login_session ''canteen_admin'' ''admin'') POST
     [''name'' \<mapsto> ''Tea'', ''price'' \<mapsto> ''0''] init_db
   = (Flash_redirect ''Item added'' ''success'' EP_admin_menu,
      init_db\<lparr>menu_items := menu_items init_db @
        [\<lparr>mi_id = 9, mi_name = ''Tea'', price = Finite 0, available = True,
          available_from = None, available_to = None\<rparr>]\<rparr>)"
proof -
  have f: "py_strip ''Tea'' = ''Tea''" "py_strip ''-5'' = ''-5''" "py_strip ''0'' = ''0''"
    "py_strip [] = []"
    by (simp_all add: py_strip_def is_space_def)
  show ?thesis
    by (simp add: admin_menu_def form_get_def or_none_def f py_float_examples next_id_init_db)
qed

text \<open>
  Claim C8, amended. Adding an item is for admins only: any other session is sent to the
  login page. The admin's POST is refused, and nothing is stored, when the name or the
  price is empty once stripped, or when the price does not parse as a float. A price
  that parses as NaN is not refused, but the store rejects the row: the request ends in
  a server error and nothing is stored. With any other price that parses, whatever its
  sign and be it zero or infinite, one item is appended: it has a new identifier, the
  stripped name, the parsed price, the bounds of the form (an empty one counting as
  unset), and \<open>available = True\<close>; orders and feedback are untouched.
\<close>

theorem admin_menu_spec:
  "(\<not> is_logged_in sess \<or> \<not> is_admin sess \<longrightarrow>
      admin_menu sess meth frm db = (Redirect EP_login, db))
   \<and> (is_logged_in sess \<and> is_admin sess
        \<and> (py_strip (form_get frm ''name'' []) = [] \<or> py_strip (form_get frm ''price'' []) = [])
      \<longrightarrow> admin_menu sess POST frm db =
            (Flash_redirect ''Provide name and price'' ''danger'' EP_admin_menu, db))
   \<and> (is_logged_in sess \<and> is_admin sess
        \<and> py_strip (form_get frm ''name'' []) \<noteq> [] \<and> py_strip (form_get frm ''price'' []) \<noteq> []
        \<and> py_float (py_strip (form_get frm ''price'' [])) = None
      \<longrightarrow> admin_menu sess POST frm db =
            (Flash_redirect ''Price must be a number'' ''danger'' EP_admin_menu, db))
   \<and> (is_logged_in sess \<and> is_admin sess
        \<and> py_strip (form_get frm ''name'' []) \<noteq> [] \<and> py_strip (form_get frm ''price'' []) \<noteq> []
        \<and> py_float (py_strip (form_get frm ''price'' [])) = Some NaN
      \<longrightarrow> admin_menu sess POST frm db = (Server_error IntegrityError, db))
   \<and> (is_logged_in sess \<and> is_admin sess
        \<and> py_strip (form_get frm ''name'' []) \<noteq> [] \<and> py_strip (form_get frm ''price'' []) \<noteq> []
        \<and> py_float (py_strip (form_get frm ''price'' [])) = Some p \<and> p \<noteq> NaN
      \<longrightarrow> (\<exists>item.
             admin_menu sess POST frm db =
               (Flash_redirect ''Item added'' ''success'' EP_admin_menu,
                db\<lparr>menu_items := menu_items db @ [item]\<rparr>)
             \<and> mi_id item \<notin> set (map mi_id (menu_items db))
             \<and> mi_name item = py_strip (form_get frm ''name'' [])
             \<and> price item = p
             \<and> available item
             \<and> available_from item = or_none (py_strip (form_get frm ''available_from'' []))
             \<and> available_to item = or_none (py_strip (form_get frm ''available_to'' []))))"
proof (intro conjI impI)
  assume "\<not> is_logged_in sess \<or> \<not> is_admin sess"
  then show "admin_menu sess meth frm db = (Redirect EP_login, db)"
    by (rule admin_menu_gate)
next
  assume "is_logged_in sess \<and> is_admin sess
        \<and> (py_strip (form_get frm ''name'' []) = [] \<or> py_strip (form_get frm ''price'' []) = [])"
  then show "admin_menu sess POST frm db =
            (Flash_redirect ''Provide name and price'' ''danger'' EP_admin_menu, db)"
    by (auto simp: admin_menu_def Let_def)
next
  assume "is_logged_in sess \<and> is_admin sess
        \<and> py_strip (form_get frm ''name'' []) \<noteq> [] \<and> py_strip (form_get frm ''price'' []) \<noteq> []
        \<and> py_float (py_strip (form_get frm ''price'' [])) = None"
  then show "admin_menu sess POST frm db =
            (Flash_redirect ''Price must be a number'' ''danger'' EP_admin_menu, db)"
    by (simp add: admin_menu_def Let_def)
next
  assume "is_logged_in sess \<and> is_admin sess
        \<and> py_strip (form_get frm ''name'' []) \<noteq> [] \<and> py_strip (form_get frm ''price'' []) \<noteq> []
        \<and> py_float (py_strip (form_get frm ''price'' [])) = Some NaN"
  then show "admin_menu sess POST frm db = (Server_error IntegrityError, db)"
    by (simp add: admin_menu_def Let_def)
next
  assume a: "is_logged_in sess \<and> is_admin sess
        \<and> py_strip (form_get frm ''name'' []) \<noteq> [] \<and> py_strip (form_get frm ''price'' []) \<noteq> []
        \<and> py_float (py_strip (form_get frm ''price'' [])) = Some p \<and> p \<noteq> NaN"
  let ?item = "\<lparr>mi_id = next_id (map mi_id (menu_items db)),
      mi_name = py_strip (form_get frm ''name'' []), price = p, available = True,
      available_from = or_none (py_strip (form_get frm ''available_from'' [])),
      available_to = or_none (py_strip (form_get frm ''available_to'' []))\<rparr>"
  from a have "admin_menu sess POST frm db =
      (Flash_redirect ''Item added'' ''success'' EP_admin_menu,
       db\<lparr>menu_items := menu_items db @ [?item]\<rparr>)"
    by (simp add: admin_menu_def Let_def)
  moreover have "mi_id ?item \<notin> set (map mi_id (menu_items db))"
    using next_id_notin [of "map mi_id (menu_items db)"] by simp
  ultimately show "\<exists>item.
             admin_menu sess POST frm db =
               (Flash_redirect ''Item added'' ''success'' EP_admin_menu,
                db\<lparr>menu_items := menu_items db @ [item]\<rparr>)
             \<and> mi_id item \<notin> set (map mi_id (menu_items db))
             \<and> mi_name item = py_strip (form_get frm ''name'' [])
             \<and> price item = p
             \<and> available item
             \<and> available_from item = or_none (py_strip (form_get frm ''available_from'' []))
             \<and> available_to item = or_none (py_strip (form_get frm ''available_to'' []))"
    by (intro exI [of _ ?item]) simp
qed

text \<open>
  The admin adds tea at 12.50 for the morning, and tea at the price \<^verbatim>\<open>inf\<close>; a form
  without a name and one with the price \<^verbatim>\<open>cheap\<close> are refused; the price
  \<^verbatim>\<open>nan\<close> ends in a server error; Alice is sent to login.
\<close>

theorem admin_menu_spec_witness:
  "admin_menu (login_session ''alice'' ''user'') POST
     [''name'' \<mapsto> ''Tea'', ''price'' \<mapsto> ''12.50''] init_db
   = (Redirect EP_login, init_db)
   \<and> admin_menu (login_session ''canteen_admin'' ''admin'') POST
     [''name'' \<mapsto> ''  '', ''price'' \<mapsto> ''12.50''] init_db
   = (Flash_redirect ''Provide name and price'' ''danger'' EP_admin_menu, init_db)
   \<and> admin_menu (login_session ''canteen_admin'' ''admin'') POST
     [''name'' \<mapsto> ''Tea'', ''price'' \<mapsto> ''cheap''] init_db
   = (Flash_redirect ''Price must be a number'' ''danger'' EP_admin_menu, init_db)
   \<and> admin_menu (login_session ''canteen_admin'' ''admin'') POST
     [''name'' \<mapsto> ''Tea'', ''price'' \<mapsto> ''nan''] init_db
   = (Server_error IntegrityError, init_db)
   \<and> map price (menu_items (snd (admin_menu (login_session ''canteen_admin'' ''admin'') POST
     [''name'' \<mapsto> ''Tea'', ''price'' \<mapsto> ''inf''] init_db)))
   = map price (menu_items init_db) @ [PosInf]
   \<and> fst (admin_menu (login_session ''canteen_admin'' ''admin'') POST
     [''name'' \<mapsto> ''Tea'', ''price'' \<mapsto> '' 12.50'', ''available_from'' \<mapsto> ''07:00'',
      ''available_to'' \<mapsto> ''11:00''] init_db)
   = Flash_redirect ''Item added'' ''success'' EP_admin_menu
   \<and> map price (menu_items (snd (admin_menu (login_session ''canteen_admin'' ''admin'') POST
     [''name'' \<mapsto> ''Tea'', ''price'' \<mapsto> '' 12.50'', ''available_from'' \<mapsto> ''07:00'',
      ''available_to'' \<mapsto> ''11:00''] init_db)))
   = map price (menu_items init_db) @ [Finite (25 / 2)]
   \<and> map available (menu_items (snd (admin_menu (login_session ''canteen_admin'' ''admin'') POST
     [''name'' \<mapsto> ''Tea'', ''price'' \<mapsto> '' 12.50'', ''available_from'' \<mapsto> ''07:00'',
      ''available_to'' \<mapsto> ''11:00''] init_db)))
   = map available (menu_items init_db) @ [True]"
proof -
  let ?adm = "login_session ''canteen_admin'' ''admin''"
  let ?f = "\<lambda>v. [''name'' \<mapsto> ''Tea'', ''price'' \<mapsto> v]"
  let ?f2 = "[''name'' \<mapsto> ''  '', ''price'' \<mapsto> ''12.50'']"
  let ?f4 = "[''name'' \<mapsto> ''Tea'', ''price'' \<mapsto> '' 12.50'', ''available_from'' \<mapsto> ''07:00'',
      ''available_to'' \<mapsto> ''11:00'']"
  have n: "py_strip (form_get ?f2 ''name'' []) = []"
    "\<And>v. py_strip (form_get (?f v) ''name'' []) = ''Tea''"
    "py_strip (form_get ?f4 ''name'' []) = ''Tea''"
    "py_strip (form_get (?f ''cheap'') ''price'' []) = ''cheap''"
    "py_strip (form_get (?f ''nan'') ''price'' []) = ''nan''"
    "py_strip (form_get (?f ''inf'') ''price'' []) = ''inf''"
    "py_strip (form_get ?f4 ''price'' []) = ''12.50''"
    by (simp_all add: form_get_def py_strip_def is_space_def)
  note p = py_float_examples
  note s = admin_menu_spec
  have a: "admin_menu (login_session ''alice'' ''user'') POST (?f ''12.50'') init_db
      = (Redirect EP_login, init_db)"
    using s [of "login_session ''alice'' ''user''" POST "?f ''12.50''" init_db] by simp
  have b: "admin_menu ?adm POST ?f2 init_db
      = (Flash_redirect ''Provide name and price'' ''danger'' EP_admin_menu, init_db)"
    using s [of ?adm POST ?f2 init_db] n by simp
  have c: "admin_menu ?adm POST (?f ''cheap'') init_db
      = (Flash_redirect ''Price must be a number'' ''danger'' EP_admin_menu, init_db)"
    using s [of ?adm POST "?f ''cheap''" init_db] n p by simp
  have d: "admin_menu ?adm POST (?f ''nan'') init_db = (Server_error IntegrityError, init_db)"
    using s [of ?adm POST "?f ''nan''" init_db] n p by simp
  obtain item where e:
    "admin_menu ?adm POST (?f ''inf'') init_db =
       (Flash_redirect ''Item added'' ''success'' EP_admin_menu,
        init_db\<lparr>menu_items := menu_items init_db @ [item]\<rparr>)"
    "price item = PosInf"
    using s [of ?adm POST "?f ''inf''" init_db PosInf] n p by auto
  obtain item' where f:
    "admin_menu ?adm POST ?f4 init_db =
       (Flash_redirect ''Item added'' ''success'' EP_admin_menu,
        init_db\<lparr>menu_items := menu_items init_db @ [item']\<rparr>)"
    "price item' = Finite (25 / 2)" "available item'"
    using s [of ?adm POST ?f4 init_db "Finite (25 / 2)"] n p by auto
  from a b c d e f show ?thesis by simp
qed

section \<open>Paying whatever the status\<close>

lemma update_other_ids:
  "\<forall>r \<in> set xs. order_id r \<noteq> i \<Longrightarrow> map (\<lambda>r. if order_id r = i then f r else r) xs = xs"
  by (induction xs) auto

lemma sum_map_upd:
  fixes g :: "order \<Rightarrow> 'a::comm_monoid_add"
  assumes "distinct (map order_id xs)" and "ord \<in> set xs"
  shows "\<exists>A. sum_list (map g xs) = A + g ord
           \<and> sum_list (map g (map (\<lambda>r. if order_id r = order_id ord then f r else r) xs))
               = A + g (f ord)"
  using assms
proof (induction xs)
  case Nil
  then show ?case by simp
next
  case (Cons x xs)
  show ?case
  proof (cases "x = ord")
    case True
    with Cons.prems have "order_id ord \<notin> order_id ` set xs"
      by simp
    then have "\<forall>r \<in> set xs. order_id r \<noteq> order_id ord"
      by (metis imageI)
    then have "map (\<lambda>r. if order_id r = order_id ord then f r else r) xs = xs"
      by (rule update_other_ids)
    with True show ?thesis
      by (intro exI [of _ "sum_list (map g xs)"]) (simp add: ac_simps)
  next
    case False
    with Cons.prems have m: "ord \<in> set xs" "distinct (map order_id xs)"
      by auto
    from m Cons.prems have n: "order_id x \<noteq> order_id ord"
      by (metis distinct.simps(2) imageI list.simps(9) set_map)
    from Cons.IH [OF m(2,1)] obtain A where
      "sum_list (map g xs) = A + g ord"
      "sum_list (map g (map (\<lambda>r. if order_id r = order_id ord then f r else r) xs))
         = A + g (f ord)"
      by blast
    with n show ?thesis
      by (intro exI [of _ "g x + A"]) (simp add: ac_simps)
  qed
qed

lemma total_spent_after_payment:
  assumes "distinct (map order_id (orders db))" and "get_order db oid = Some ord"
    and "username ord = u"
  shows "total_spent (user_orders (update_order oid (\<lambda>r. r\<lparr>payment_status := ''Paid''\<rparr>) db) u) =
         total_spent (user_orders db u)
           + (if payment_status ord = ''Paid'' then 0 else total_price ord)"
proof -
  let ?g = "\<lambda>r. if username r = u \<and> payment_status r = ''Paid'' then total_price r else 0"
  let ?f = "\<lambda>r. r\<lparr>payment_status := ''Paid''\<rparr>"
  from assms(2) have m: "ord \<in> set (orders db)" "order_id ord = oid"
    using get_order_Some by auto
  have after: "total_spent (user_orders (update_order oid ?f db) u) =
        sum_list (map ?g (map (\<lambda>r. if order_id r = order_id ord then ?f r else r) (orders db)))"
    unfolding total_spent_user_orders
    by (simp add: update_order_def m sum_list_map_filter' comp_def)
  have before: "total_spent (user_orders db u) = sum_list (map ?g (orders db))"
    unfolding total_spent_user_orders by (simp add: sum_list_map_filter' comp_def)
  from sum_map_upd [OF assms(1) m(1), of ?g ?f] obtain A where
    A: "sum_list (map ?g (orders db)) = A + ?g ord"
      "sum_list (map ?g (map (\<lambda>r. if order_id r = order_id ord then ?f r else r) (orders db)))
        = A + ?g (?f ord)"
    by blast
  show ?thesis
    unfolding after before A using assms(3) by simp
qed

text \<open>
  Claim C9. The owner's payment asks nothing of the order: whatever its status and its
  payment status, the POST succeeds and leaves the order \<^verbatim>\<open>Paid\<close>, its status as it
  was. In a table with unique order ids the owner's history then shows a total raised by
  the order's price, unless the order was \<^verbatim>\<open>Paid\<close> already. A \<^verbatim>\<open>Cancelled\<close> order
  is no exception.
\<close>

theorem payment_any_status:
  assumes "is_logged_in sess" and "\<not> is_admin sess"
    and "get_order db oid = Some ord" and "username ord = session_username sess"
    and "distinct (map order_id (orders db))"
  shows "fst (payment sess POST frm oid db) =
           Flash_redirect
             (''Payment successful via '' @ form_get frm ''method'' ''None'' @ '' (dummy).'')
             ''success'' (EP_order_receipt oid)
       \<and> get_order (snd (payment sess POST frm oid db)) oid
           = Some (ord\<lparr>payment_status := ''Paid''\<rparr>)
       \<and> order_history sess (snd (payment sess POST frm oid db)) =
           Render_order_history
             (user_orders (snd (payment sess POST frm oid db)) (session_username sess))
             (total_spent (user_orders db (session_username sess))
                + (if payment_status ord = ''Paid'' then 0 else total_price ord))"
proof -
  let ?db' = "update_order oid (\<lambda>r. r\<lparr>payment_status := ''Paid''\<rparr>) db"
  have p: "payment sess POST frm oid db =
      (Flash_redirect
         (''Payment successful via '' @ form_get frm ''method'' ''None'' @ '' (dummy).'')
         ''success'' (EP_order_receipt oid), ?db')"
    using payment_found [OF assms(1-3), of POST frm] assms(4) by simp
  have g: "get_order ?db' oid = Some (ord\<lparr>payment_status := ''Paid''\<rparr>)"
    using assms(3) by (simp add: get_order_update)
  have t: "total_spent (user_orders ?db' (session_username sess)) =
      total_spent (user_orders db (session_username sess))
        + (if payment_status ord = ''Paid'' then 0 else total_price ord)"
    by (rule total_spent_after_payment [OF assms(5,3,4)])
  have h: "order_history sess ?db' =
      Render_order_history (user_orders ?db' (session_username sess))
        (total_spent (user_orders ?db' (session_username sess)))"
    using assms(1,2) by (simp add: order_history_def Let_def)
  show ?thesis
    unfolding p using g h t by simp
qed

text \<open>
  Alice pays her cancelled, unpaid order 2 (price 15) beside her paid order 1 (price
  100): the order stays \<^verbatim>\<open>Cancelled\<close>, is \<^verbatim>\<open>Paid\<close>, and her total goes from 100
  to 115.
\<close>

theorem payment_any_status_witness:
  "get_order (ex_db [ex_order 1 ''alice'' 100 ''Completed'' ''Paid'',
                     ex_order 2 ''alice'' 15 ''Cancelled'' ''Unpaid''] []) 2
     = Some (ex_order 2 ''alice'' 15 ''Cancelled'' ''Unpaid'')
   \<and> total_spent (user_orders (ex_db [ex_order 1 ''alice'' 100 ''Completed'' ''Paid'',
                     ex_order 2 ''alice'' 15 ''Cancelled'' ''Unpaid''] []) ''alice'') = Finite 100
   \<and> get_order (snd (payment (login_session ''alice'' ''user'') POST [''method'' \<mapsto> ''UPI''] 2
        (ex_db [ex_order 1 ''alice'' 100 ''Completed'' ''Paid'',
                ex_order 2 ''alice'' 15 ''Cancelled'' ''Unpaid''] []))) 2
     = Some (ex_order 2 ''alice'' 15 ''Cancelled'' ''Paid'')
   \<and> order_history (login_session ''alice'' ''user'')
        (snd (payment (login_session ''alice'' ''user'') POST [''method'' \<mapsto> ''UPI''] 2
          (ex_db [ex_order 1 ''alice'' 100 ''Completed'' ''Paid'',
                  ex_order 2 ''alice'' 15 ''Cancelled'' ''Unpaid''] [])))
     = Render_order_history
         [ex_order 2 ''alice'' 15 ''Cancelled'' ''Paid'',
          ex_order 1 ''alice'' 100 ''Completed'' ''Paid''] (Finite 115)"
proof -
  let ?db = "ex_db [ex_order 1 ''alice'' 100 ''Completed'' ''Paid'',
                    ex_order 2 ''alice'' 15 ''Cancelled'' ''Unpaid''] []"
  let ?s = "login_session ''alice'' ''user''"
  have g: "get_order ?db 2 = Some (ex_order 2 ''alice'' 15 ''Cancelled'' ''Unpaid'')"
    by (simp add: get_order_def)
  have t: "total_spent (user_orders ?db ''alice'') = Finite 100"
    by (simp add: user_orders_def total_spent_def)
  have d: "distinct (map order_id (orders ?db))"
    by simp
  have u: "user_orders (snd (payment ?s POST [''method'' \<mapsto> ''UPI''] 2 ?db)) ''alice'' =
      [ex_order 2 ''alice'' 15 ''Cancelled'' ''Paid'',
       ex_order 1 ''alice'' 100 ''Completed'' ''Paid'']"
    by (simp add: payment_def get_order_def update_order_ex_db user_orders_def)
  show ?thesis
    using g t u payment_any_status [of ?s ?db 2 "ex_order 2 ''alice'' 15 ''Cancelled'' ''Unpaid''"
        "[''method'' \<mapsto> ''UPI'']", OF _ _ g _ d]
    by simp
qed

section \<open>Feedback\<close>



section \<open>Placing an order\<close>

lemma length_gen_token: "length (gen_token rnd n) = n"
  by (simp add: gen_token_def)

lemma set_gen_token: "set (gen_token rnd n) \<subseteq> set alphabet"
proof -
  have "0 < length alphabet"
    by (simp add: alphabet_def)
  then have "\<And>i. alphabet ! (rnd i mod length alphabet) \<in> set alphabet"
    by (intro nth_mem mod_less_divisor)
  then show ?thesis
    by (auto simp: gen_token_def)
qed

lemma length_alphabet: "length alphabet = 36" "distinct alphabet"
  by (simp_all add: alphabet_def)

lemma init_db_samosa:
  "get_item init_db 3 =
     Some \<lparr>mi_id = 3, mi_name = ''Samosa'', price = Finite 15, available = True,
           available_from = Some ''09:00'', available_to = Some ''17:00''\<rparr>"
  by (simp add: get_item_def init_db_def sample_def enumerate_eq_zip upt_rec)

lemma samosa_at_10:
  "in_availability
     \<lparr>mi_id = 3, mi_name = ''Samosa'', price = Finite 15, available = True,
      available_from = Some ''09:00'', available_to = Some ''17:00''\<rparr>
     \<lparr>hour = 10, minute = 0, second = 0, microsecond = 0\<rparr> = Inr True"
  by (simp add: in_availability_def truthy_def strptime_defs time_le_def time_key_def)

lemma samosa_at_18:
  "in_availability
     \<lparr>mi_id = 3, mi_name = ''Samosa'', price = Finite 15, available = True,
      available_from = Some ''09:00'', available_to = Some ''17:00''\<rparr>
     \<lparr>hour = 18, minute = 0, second = 0, microsecond = 0\<rparr> = Inr False"
  by (simp add: in_availability_def truthy_def strptime_defs time_le_def time_key_def)

lemma gen_token_id: "gen_token id 6 = ''ABCDEF''"
  by (simp add: gen_token_def alphabet_def upt_rec)

lemma order_form_gate:
  "\<not> is_logged_in sess \<or> is_admin sess \<Longrightarrow>
     order_form sess meth frm cur utcnow rnd iid db = (Redirect EP_login, db)"
  by (simp add: order_form_def)

lemma order_form_post:
  assumes "is_logged_in sess" "\<not> is_admin sess" "get_item db iid = Some item"
  shows "order_form sess POST frm cur utcnow rnd iid db =
     (case in_availability item cur of
        Inl e \<Rightarrow> (Server_error e, db)
      | Inr ok \<Rightarrow>
          if \<not> ok then
            (Flash_redirect ''This item is not available at the selected time.''
               ''danger'' EP_menu, db)
          else if py_strip (form_get frm ''order_time'' []) = []
               \<or> py_strip (form_get frm ''order_ampm'' []) \<notin> {''AM'', ''PM''} then
            (Flash_redirect ''Please enter valid time and AM/PM'' ''danger''
               (EP_order_form iid), db)
          else
            (Redirect (EP_payment (next_id (map order_id (orders db)))),
             db\<lparr>orders := orders db @
               [\<lparr>order_id = next_id (map order_id (orders db)),
                 username = session_username sess,
                 item_name = mi_name item,
                 total_price = price item,
                 pickup_time = py_strip (form_get frm ''order_time'' []) @ '' ''
                   @ py_strip (form_get frm ''order_ampm'' []),
                 status = ''Pending'',
                 created_at = utcnow,
                 payment_status = ''Unpaid'',
                 token = Some (gen_token rnd 6)\<rparr>]\<rparr>))"
  using assms by (simp add: order_form_def Let_def split: sum.splits)

text \<open>
  Claim C2, as stated, fails: the text of the pickup time is not checked for its form,
  only for being there. Alice's order of the seeded Samosa at 10:00 with the pickup time
  \<^verbatim>\<open>banana\<close> is stored.
\<close>

theorem order_form_counterexample:
  "order_form (login_session ''alice'' ''user'') POST
     [''order_time'' \<mapsto> ''banana'', ''order_ampm'' \<mapsto> ''PM'']
     \<lparr>hour = 10, minute = 0, second = 0, microsecond = 0\<rparr> 1700000000 id 3 init_db
   = (Redirect (EP_payment 1),
      init_db\<lparr>orders :=
        [\<lparr>order_id = 1, username = ''alice'', item_name = ''Samosa'', total_price = Finite 15,
          pickup_time = ''banana PM'', status = ''Pending'', created_at = 1700000000,
          payment_status = ''Unpaid'', token = Some ''ABCDEF''\<rparr>]\<rparr>)"
proof -
  have o: "orders init_db = []"
    by (simp add: init_db_def)
  have f: "py_strip (form_get [''order_time'' \<mapsto> ''banana'', ''order_ampm'' \<mapsto> ''PM'']
             ''order_time'' []) = ''banana''"
    "py_strip (form_get [''order_time'' \<mapsto> ''banana'', ''order_ampm'' \<mapsto> ''PM'']
             ''order_ampm'' []) = ''PM''"
    by (simp_all add: form_get_def py_strip_def is_space_def)
  show ?thesis
    by (simp add: order_form_post [OF _ _ init_db_samosa] samosa_at_10 f o gen_token_id
        next_id_def)
qed

text \<open>
  Claim C2, amended. For a logged-in student and an item that exists, a POST is refused
  with the "not available" message when \<open>in_availability\<close> says no, and with the
  "valid time and AM/PM" message when the pickup time is empty once stripped or the
  designator is neither \<^verbatim>\<open>AM\<close> nor \<^verbatim>\<open>PM\<close>; neither stores an order. Otherwise
  exactly one order is appended, whatever the text of the pickup time: it has a new
  identifier, the student's name, the item's name and price, the status
  \<^verbatim>\<open>Pending\<close>, the payment status \<^verbatim>\<open>Unpaid\<close> and a token of six characters of
  the alphabet; the response leads to the payment page of that identifier.
\<close>

theorem order_form_spec:
  assumes "is_logged_in sess" and "\<not> is_admin sess" and "get_item db iid = Some item"
  shows "(in_availability item cur = Inr False \<longrightarrow>
            order_form sess POST frm cur utcnow rnd iid db =
              (Flash_redirect ''This item is not available at the selected time.''
                 ''danger'' EP_menu, db))
       \<and> (in_availability item cur = Inr True
            \<and> (py_strip (form_get frm ''order_time'' []) = []
                \<or> py_strip (form_get frm ''order_ampm'' []) \<notin> {''AM'', ''PM''}) \<longrightarrow>
            order_form sess POST frm cur utcnow rnd iid db =
              (Flash_redirect ''Please enter valid time and AM/PM'' ''danger''
                 (EP_order_form iid), db))
       \<and> (in_availability item cur = Inr True
            \<and> py_strip (form_get frm ''order_time'' []) \<noteq> []
            \<and> py_strip (form_get frm ''order_ampm'' []) \<in> {''AM'', ''PM''} \<longrightarrow>
            (\<exists>new tok.
               order_form sess POST frm cur utcnow rnd iid db =
                 (Redirect (EP_payment (order_id new)), db\<lparr>orders := orders db @ [new]\<rparr>)
               \<and> order_id new \<notin> set (map order_id (orders db))
               \<and> username new = session_username sess
               \<and> item_name new = mi_name item
               \<and> total_price new = price item
               \<and> pickup_time new = py_strip (form_get frm ''order_time'' []) @ '' ''
                    @ py_strip (form_get frm ''order_ampm'' [])
               \<and> status new = ''Pending''
               \<and> payment_status new = ''Unpaid''
               \<and> token new = Some tok \<and> length tok = 6 \<and> set tok \<subseteq> set alphabet))"
proof (intro conjI impI)
  note p = order_form_post [OF assms, of frm cur utcnow rnd]
  { assume "in_availability item cur = Inr False"
    then show "order_form sess POST frm cur utcnow rnd iid db =
              (Flash_redirect ''This item is not available at the selected time.''
                 ''danger'' EP_menu, db)"
      by (simp add: p) }
  { assume "in_availability item cur = Inr True
            \<and> (py_strip (form_get frm ''order_time'' []) = []
                \<or> py_strip (form_get frm ''order_ampm'' []) \<notin> {''AM'', ''PM''})"
    then show "order_form sess POST frm cur utcnow rnd iid db =
              (Flash_redirect ''Please enter valid time and AM/PM'' ''danger''
                 (EP_order_form iid), db)"
      by (auto simp: p) }
  { assume a: "in_availability item cur = Inr True
            \<and> py_strip (form_get frm ''order_time'' []) \<noteq> []
            \<and> py_strip (form_get frm ''order_ampm'' []) \<in> {''AM'', ''PM''}"
    let ?new = "\<lparr>order_id = next_id (map order_id (orders db)),
                 username = session_username sess,
                 item_name = mi_name item,
                 total_price = price item,
                 pickup_time = py_strip (form_get frm ''order_time'' []) @ '' ''
                   @ py_strip (form_get frm ''order_ampm'' []),
                 status = ''Pending'',
                 created_at = utcnow,
                 payment_status = ''Unpaid'',
                 token = Some (gen_token rnd 6)\<rparr>"
    from a have "order_form sess POST frm cur utcnow rnd iid db =
        (Redirect (EP_payment (order_id ?new)), db\<lparr>orders := orders db @ [?new]\<rparr>)"
      by (auto simp: p)
    moreover have "order_id ?new \<notin> set (map order_id (orders db))"
      using next_id_notin [of "map order_id (orders db)"] by simp
    moreover have "length (gen_token rnd 6) = 6" "set (gen_token rnd 6) \<subseteq> set alphabet"
      by (rule length_gen_token, rule set_gen_token)
    ultimately show "\<exists>new tok.
               order_form sess POST frm cur utcnow rnd iid db =
                 (Redirect (EP_payment (order_id new)), db\<lparr>orders := orders db @ [new]\<rparr>)
               \<and> order_id new \<notin> set (map order_id (orders db))
               \<and> username new = session_username sess
               \<and> item_name new = mi_name item
               \<and> total_price new = price item
               \<and> pickup_time new = py_strip (form_get frm ''order_time'' []) @ '' ''
                    @ py_strip (form_get frm ''order_ampm'' [])
               \<and> status new = ''Pending''
               \<and> payment_status new = ''Unpaid''
               \<and> token new = Some tok \<and> length tok = 6 \<and> set tok \<subseteq> set alphabet"
      by (intro exI [of _ ?new] exI [of _ "gen_token rnd 6"]) simp }
qed

text \<open>
  Alice and the seeded Samosa (15, from 09:00 to 17:00). At 18:00 the order is refused;
  at 10:00 it is refused without a pickup time and with the designator \<^verbatim>\<open>pm\<close>; at
  10:00 for \<^verbatim>\<open>12:30 PM\<close> it becomes order 1.
\<close>

theorem order_form_spec_witness:
  "order_form (login_session ''alice'' ''user'') POST
     [''order_time'' \<mapsto> ''12:30'', ''order_ampm'' \<mapsto> ''PM'']
     \<lparr>hour = 18, minute = 0, second = 0, microsecond = 0\<rparr> 1700000000 id 3 init_db
   = (Flash_redirect ''This item is not available at the selected time.'' ''danger'' EP_menu,
      init_db)
   \<and> order_form (login_session ''alice'' ''user'') POST
     [''order_time'' \<mapsto> ''  '', ''order_ampm'' \<mapsto> ''PM'']
     \<lparr>hour = 10, minute = 0, second = 0, microsecond = 0\<rparr> 1700000000 id 3 init_db
   = (Flash_redirect ''Please enter valid time and AM/PM'' ''danger'' (EP_order_form 3),
      init_db)
   \<and> order_form (login_session ''alice'' ''user'') POST
     [''order_time'' \<mapsto> ''12:30'', ''order_ampm'' \<mapsto> ''pm'']
     \<lparr>hour = 10, minute = 0, second = 0, microsecond = 0\<rparr> 1700000000 id 3 init_db
   = (Flash_redirect ''Please enter valid time and AM/PM'' ''danger'' (EP_order_form 3),
      init_db)
   \<and> fst (order_form (login_session ''alice'' ''user'') POST
     [''order_time'' \<mapsto> ''12:30'', ''order_ampm'' \<mapsto> ''PM'']
     \<lparr>hour = 10, minute = 0, second = 0, microsecond = 0\<rparr> 1700000000 id 3 init_db)
   = Redirect (EP_payment 1)
   \<and> map (\<lambda>r. (username r, item_name r, total_price r, pickup_time r, status r,
               payment_status r))
       (orders (snd (order_form (login_session ''alice'' ''user'') POST
         [''order_time'' \<mapsto> ''12:30'', ''order_ampm'' \<mapsto> ''PM'']
         \<lparr>hour = 10, minute = 0, second = 0, microsecond = 0\<rparr> 1700000000 id 3 init_db)))
   = [(''alice'', ''Samosa'', Finite 15, ''12:30 PM'', ''Pending'', ''Unpaid'')]"
proof -
  let ?s = "login_session ''alice'' ''user''"
  let ?t = "\<lambda>h. \<lparr>hour = h, minute = 0, second = 0, microsecond = 0\<rparr>"
  let ?f1 = "[''order_time'' \<mapsto> ''12:30'', ''order_ampm'' \<mapsto> ''PM'']"
  let ?f2 = "[''order_time'' \<mapsto> ''  '', ''order_ampm'' \<mapsto> ''PM'']"
  let ?f3 = "[''order_time'' \<mapsto> ''12:30'', ''order_ampm'' \<mapsto> ''pm'']"
  have o: "orders init_db = []"
    by (simp add: init_db_def)
  have f: "py_strip (form_get ?f1 ''order_time'' []) = ''12:30''"
    "py_strip (form_get ?f1 ''order_ampm'' []) = ''PM''"
    "py_strip (form_get ?f2 ''order_time'' []) = []"
    "py_strip (form_get ?f3 ''order_time'' []) = ''12:30''"
    "py_strip (form_get ?f3 ''order_ampm'' []) = ''pm''"
    by (simp_all add: form_get_def py_strip_def is_space_def)
  note s = order_form_spec [OF _ _ init_db_samosa, of ?s]
  have a: "order_form ?s POST ?f1 (?t 18) 1700000000 id 3 init_db =
      (Flash_redirect ''This item is not available at the selected time.'' ''danger'' EP_menu,
       init_db)"
    using s [of "?t 18" ?f1 1700000000 id] samosa_at_18 by simp
  have b: "order_form ?s POST ?f2 (?t 10) 1700000000 id 3 init_db =
      (Flash_redirect ''Please enter valid time and AM/PM'' ''danger'' (EP_order_form 3),
       init_db)"
    using s [of "?t 10" ?f2 1700000000 id] samosa_at_10 f by simp
  have c: "order_form ?s POST ?f3 (?t 10) 1700000000 id 3 init_db =
      (Flash_redirect ''Please enter valid time and AM/PM'' ''danger'' (EP_order_form 3),
       init_db)"
    using s [of "?t 10" ?f3 1700000000 id] samosa_at_10 f by simp
  obtain new where d:
    "order_form ?s POST ?f1 (?t 10) 1700000000 id 3 init_db =
       (Redirect (EP_payment (order_id new)), init_db\<lparr>orders := orders init_db @ [new]\<rparr>)"
    "username new = ''alice''" "item_name new = ''Samosa''" "total_price new = Finite 15"
    "pickup_time new = ''12:30 PM''" "status new = ''Pending''"
    "payment_status new = ''Unpaid''"
    using s [of "?t 10" ?f1 1700000000 id] samosa_at_10 f by auto
  have e: "fst (order_form ?s POST ?f1 (?t 10) 1700000000 id 3 init_db)
      = Redirect (EP_payment 1)"
    by (simp add: order_form_post [OF _ _ init_db_samosa] samosa_at_10 f o next_id_def)
  from a b c d e show ?thesis
    by (simp add: o)
qed

lemma order_form_distinct_ids:
  assumes "distinct (map order_id (orders db))"
  shows "distinct (map order_id (orders (snd (order_form sess meth frm cur utcnow rnd iid db))))"
  using assms next_id_notin [of "map order_id (orders db)"]
  by (auto simp: order_form_def Let_def split: option.splits sum.splits)

lemma update_order_distinct_ids:
  assumes "\<And>r. order_id (f r) = order_id r"
  shows "map order_id (orders (update_order i f db)) = map order_id (orders db)"
  using assms by (simp add: update_order_def)

end
